theory Spec2Isabelle
  imports Complex_Main
begin

section \<open>Training Neural Networks: the notebook's code cells over an external framework\<close>

text \<open>
  The notebook \<^verbatim>\<open>Part 3 - Training Neural Networks (Exercises).ipynb\<close> is a sequence of
  code cells that call an external tensor framework. The cells are embedded as state
  transformers over the notebook's global namespace; the framework (tensor arithmetic,
  automatic differentiation, random initialisation, the data loader, Python's float
  arithmetic) is a parameter \<open>L\<close> of every definition, so that what is proved is a
  property of the cells' own glue: which calls are made, in which order, on which
  objects, and what happens to their results. The module names that the cells import
  (\<^verbatim>\<open>torch\<close>, \<^verbatim>\<open>nn\<close>, \<^verbatim>\<open>optim\<close>, \<^verbatim>\<open>datasets\<close>, \<^verbatim>\<open>transforms\<close>, \<^verbatim>\<open>helper\<close>) are taken as
  bound to the framework; every other name a cell reads is a variable of the notebook
  state, and reading it unbound raises \<^verbatim>\<open>NameError\<close>.
\<close>

subsection \<open>Objects of the framework\<close>

type_synonym addr = nat

text \<open>A \<^verbatim>\<open>Parameter\<close>: the tensor \<^verbatim>\<open>.data\<close> and the field \<^verbatim>\<open>.grad\<close> (\<^verbatim>\<open>None\<close> until a
  backward pass reaches it).\<close>

record 't param =
  pdata :: 't
  pgrad :: "'t option"

text \<open>The layers the notebook stacks. A linear layer owns two parameters (weight and bias),
  held by address in the heap of the notebook state.\<close>

datatype layer = Linear nat nat addr addr | ReLU | LogSoftmax nat

text \<open>The arguments of \<^verbatim>\<open>nn.Sequential(...)\<close> as the cells write them.\<close>

datatype layer_ctor = NNLinear nat nat | NNReLU | NNLogSoftmax nat

text \<open>\<^verbatim>\<open>nn.Sequential\<close>: an object (its identity is the first field) holding its layers.\<close>

datatype module = Sequential addr "layer list"

datatype criterion = CrossEntropyLoss | NLLLoss

text \<open>\<^verbatim>\<open>DataLoader(trainset, batch_size=..., shuffle=...)\<close> over the training set.\<close>

datatype loader = DataLoader nat bool

text \<open>\<^verbatim>\<open>optim.SGD(params, lr=...)\<close>: the parameters it was given, by address, and the
  learning rate as the decimal literal of the source.\<close>

record optimizer =
  opt_params :: "addr list"
  opt_lr :: rat

text \<open>A tensor held in a notebook variable: the framework's tensor object, together with the
  leaf parameters its autograd history reaches (empty when it does not require grad).\<close>

record 't tensor =
  tval :: 't
  leaves :: "addr list"

text \<open>Python numbers: \<^verbatim>\<open>running_loss\<close> starts as the int \<^verbatim>\<open>0\<close> and becomes a float.\<close>

datatype 'f pynum = PyInt int | PyFloat 'f

text \<open>Exceptions: those of the framework (opaque) and those of the Python runtime that the
  modelled statements can meet.\<close>

datatype 'x exn =
    LibraryError 'x
  | NameError string
  | AttributeError string
  | IndexError
  | ZeroDivisionError
  | StopIteration

text \<open>The framework as the cells use it. Every call that can raise returns a sum.\<close>

record ('t, 'f, 'r, 'x) torch =
  init_linear :: "nat \<Rightarrow> nat \<Rightarrow> 'r \<Rightarrow> ('t \<times> 't) \<times> 'r"
  empty_parameter_list :: 'x
  load_mnist :: "'x + unit"
  loader_iter :: "loader \<Rightarrow> 'r \<Rightarrow> 'x + (('t \<times> 't) list \<times> 'r)"
  loader_len :: "loader \<Rightarrow> nat"
  randn :: "nat list \<Rightarrow> 'r \<Rightarrow> 't \<times> 'r"
  tpow :: "'t \<Rightarrow> int \<Rightarrow> 'x + 't"
  tmean :: "'t \<Rightarrow> 'x + 't"
  tdiv :: "'t \<Rightarrow> int \<Rightarrow> 'x + 't"
  tresize :: "'t \<Rightarrow> int list \<Rightarrow> 'x + 't"
  tshape :: "'t \<Rightarrow> nat list"
  tview :: "'t \<Rightarrow> int list \<Rightarrow> 'x + 't"
  tselect :: "'t \<Rightarrow> int \<Rightarrow> 'x + 't"
  texp :: "'t \<Rightarrow> 'x + 't"
  forward :: "layer list \<Rightarrow> 't list \<Rightarrow> 't \<Rightarrow> 'x + 't"
  criterion_apply :: "criterion \<Rightarrow> 't \<Rightarrow> 't \<Rightarrow> 'x + 't"
  autograd :: "'t \<Rightarrow> addr list \<Rightarrow> 'x + 't list"
  zeros_like :: "'t \<Rightarrow> 't"
  tadd :: "'t \<Rightarrow> 't \<Rightarrow> 't"
  sgd_update :: "rat \<Rightarrow> 't \<Rightarrow> 't \<Rightarrow> 't"
  item :: "'t \<Rightarrow> 'x + 'f"
  float_of_int :: "int \<Rightarrow> 'f"
  fadd :: "'f \<Rightarrow> 'f \<Rightarrow> 'f"
  fdiv :: "'f \<Rightarrow> 'f \<Rightarrow> 'f"
  repr_float :: "'f \<Rightarrow> string"
  repr_tensor :: "'t \<Rightarrow> string"
  repr_grad_fn :: "'t \<Rightarrow> string"
  repr_parameter :: "'t \<Rightarrow> string"
  view_classify :: "'t \<Rightarrow> 't \<Rightarrow> 'x + unit"

subsection \<open>The notebook state\<close>

text \<open>The calls into the framework, logged in the order they are made. A raise is logged
  with the site that raised.\<close>

datatype ('t, 'f) call =
    NewLinear nat nat addr addr
  | NewSequential addr
  | NewCriterion criterion
  | NewSGD "addr list" rat
  | LoaderIter
  | View "int list"
  | Select int
  | ZeroGrad
  | Forward addr bool
  | Criterion criterion
  | Backward "'t list"
  | Step "'t option list"
  | Item 'f
  | Exp
  | ViewClassify
  | LoadDataset
  | NewLoader nat bool
  | Randn "nat list" addr
  | Pow int
  | Mean
  | Div int
  | Resize "int list"

datatype ('t, 'f, 'x) event = Did "('t, 'f) call" | Raised string "'x exn"

text \<open>The kernel's state between statements: the heap of parameters, the framework's global
  random generator and grad mode, what was printed, the log of calls, and the global
  variables of the notebook (\<open>None\<close>: the name is not bound).\<close>

record ('t, 'f, 'r, 'x) notebook =
  heap :: "addr \<Rightarrow> 't param"
  next_addr :: addr
  rng :: 'r
  grad_enabled :: bool
  stdout :: "string list"
  calls :: "('t, 'f, 'x) event list"
  v_trainset :: "unit option"
  v_trainloader :: "loader option"
  v_x :: "addr option"
  v_y :: "'t tensor option"
  v_z :: "'t tensor option"
  v_output :: "'t tensor option"
  v_model :: "module option"
  v_criterion :: "criterion option"
  v_optimizer :: "optimizer option"
  v_epochs :: "int option"
  v_epoch :: "int option"
  v_running_loss :: "'f pynum option"
  v_images :: "'t tensor option"
  v_labels :: "'t tensor option"
  v_logits :: "'t tensor option"
  v_loss :: "'t tensor option"
  v_img :: "'t tensor option"
  v_logps :: "'t tensor option"
  v_ps :: "'t tensor option"

type_synonym ('t, 'f, 'r, 'x) stmt =
  "('t, 'f, 'r, 'x) notebook \<Rightarrow> ('t, 'f, 'r, 'x) notebook \<times> 'x exn option"

definition did :: "('t, 'f) call \<Rightarrow> ('t, 'f, 'r, 'x) notebook \<Rightarrow> ('t, 'f, 'r, 'x) notebook" where
  "did c s = s\<lparr>calls := calls s @ [Did c]\<rparr>"

definition raise :: "string \<Rightarrow> 'x exn \<Rightarrow> ('t, 'f, 'r, 'x) stmt" where
  "raise site e s = (s\<lparr>calls := calls s @ [Raised site e]\<rparr>, Some e)"

text \<open>Statements in sequence: the first exception ends the cell.\<close>

fun run :: "('t, 'f, 'r, 'x) stmt list \<Rightarrow> ('t, 'f, 'r, 'x) stmt" where
  "run [] s = (s, None)"
| "run (c # cs) s = (case c s of (s', None) \<Rightarrow> run cs s' | (s', Some e) \<Rightarrow> (s', Some e))"

text \<open>A \<^verbatim>\<open>for\<close> loop over a finite sequence. The notebook's loops hold no \<^verbatim>\<open>break\<close>.\<close>

fun for_each :: "'a list \<Rightarrow> ('a \<Rightarrow> ('t, 'f, 'r, 'x) stmt) \<Rightarrow> ('t, 'f, 'r, 'x) stmt" where
  "for_each [] body s = (s, None)"
| "for_each (x # xs) body s =
     (case body x s of (s', None) \<Rightarrow> for_each xs body s' | (s', Some e) \<Rightarrow> (s', Some e))"

subsection \<open>What the framework does to the heap\<close>

fun layer_parameters :: "layer \<Rightarrow> addr list" where
  "layer_parameters (Linear i out w b) = [w, b]"
| "layer_parameters ReLU = []"
| "layer_parameters (LogSoftmax d) = []"

fun layers_of :: "module \<Rightarrow> layer list" where
  "layers_of (Sequential mid ls) = ls"

fun module_id :: "module \<Rightarrow> addr" where
  "module_id (Sequential mid ls) = mid"

definition parameters :: "module \<Rightarrow> addr list" where
  "parameters m = concat (map layer_parameters (layers_of m))"

text \<open>\<^verbatim>\<open>loss.backward()\<close> adds each leaf's gradient to its \<^verbatim>\<open>.grad\<close>, or stores it when
  the field is \<^verbatim>\<open>None\<close> (the notebook: "the gradients are accumulated").\<close>

fun accumulate ::
  "('t, 'f, 'r, 'x) torch \<Rightarrow> (addr \<times> 't) list \<Rightarrow> (addr \<Rightarrow> 't param) \<Rightarrow> (addr \<Rightarrow> 't param)" where
  "accumulate L [] h = h"
| "accumulate L ((a, g) # gs) h =
     accumulate L gs
       (h(a := (h a)\<lparr>pgrad := Some (case pgrad (h a) of None \<Rightarrow> g | Some old \<Rightarrow> tadd L old g)\<rparr>))"

text \<open>\<^verbatim>\<open>optimizer.zero_grad()\<close> zeroes, in place, every gradient that is not \<^verbatim>\<open>None\<close>.\<close>

fun zero_grads ::
  "('t, 'f, 'r, 'x) torch \<Rightarrow> addr list \<Rightarrow> (addr \<Rightarrow> 't param) \<Rightarrow> (addr \<Rightarrow> 't param)" where
  "zero_grads L [] h = h"
| "zero_grads L (a # as) h =
     zero_grads L as (h(a := (h a)\<lparr>pgrad := map_option (zeros_like L) (pgrad (h a))\<rparr>))"

text \<open>\<^verbatim>\<open>optimizer.step()\<close> of plain SGD: every parameter with a gradient moves against it,
  scaled by the learning rate; a parameter whose gradient is \<^verbatim>\<open>None\<close> is skipped.\<close>

fun sgd_step ::
  "('t, 'f, 'r, 'x) torch \<Rightarrow> rat \<Rightarrow> addr list \<Rightarrow> (addr \<Rightarrow> 't param) \<Rightarrow> (addr \<Rightarrow> 't param)" where
  "sgd_step L lr [] h = h"
| "sgd_step L lr (a # as) h =
     sgd_step L lr as
       (case pgrad (h a) of
          None \<Rightarrow> h
        | Some g \<Rightarrow> h(a := (h a)\<lparr>pdata := sgd_update L lr (pdata (h a)) g\<rparr>))"

text \<open>A result requires grad only when grad mode is on.\<close>

definition track :: "('t, 'f, 'r, 'x) notebook \<Rightarrow> addr list \<Rightarrow> addr list" where
  "track s ls = (if grad_enabled s then ls else [])"

subsection \<open>Statements\<close>

text \<open>The layers of \<^verbatim>\<open>nn.Sequential(nn.Linear(..), nn.ReLU(), ...)\<close>, built left to right: each
  \<^verbatim>\<open>nn.Linear(i, o)\<close> draws a fresh weight and bias from the random generator.\<close>

fun new_layers ::
  "('t, 'f, 'r, 'x) torch \<Rightarrow> layer_ctor list \<Rightarrow> ('t, 'f, 'r, 'x) notebook
     \<Rightarrow> layer list \<times> ('t, 'f, 'r, 'x) notebook" where
  "new_layers L [] s = ([], s)"
| "new_layers L (NNLinear i out # cs) s =
     (case init_linear L i out (rng s) of
        ((w, b), r) \<Rightarrow>
          (case new_layers L cs
                  (did (NewLinear i out (next_addr s) (Suc (next_addr s)))
                     (s\<lparr>heap := (heap s)
                           (next_addr s := \<lparr>pdata = w, pgrad = None\<rparr>,
                            Suc (next_addr s) := \<lparr>pdata = b, pgrad = None\<rparr>),
                        next_addr := Suc (Suc (next_addr s)),
                        rng := r\<rparr>)) of
             (ls, s') \<Rightarrow> (Linear i out (next_addr s) (Suc (next_addr s)) # ls, s')))"
| "new_layers L (NNReLU # cs) s =
     (case new_layers L cs s of (ls, s') \<Rightarrow> (ReLU # ls, s'))"
| "new_layers L (NNLogSoftmax d # cs) s =
     (case new_layers L cs s of (ls, s') \<Rightarrow> (LogSoftmax d # ls, s'))"

text \<open>\<^verbatim>\<open>model = nn.Sequential(...)\<close>\<close>

definition new_model :: "('t, 'f, 'r, 'x) torch \<Rightarrow> layer_ctor list \<Rightarrow> ('t, 'f, 'r, 'x) stmt" where
  "new_model L cs s =
     (case new_layers L cs s of
        (ls, s') \<Rightarrow>
          (did (NewSequential (next_addr s'))
             (s'\<lparr>next_addr := Suc (next_addr s'),
                 v_model := Some (Sequential (next_addr s') ls)\<rparr>), None))"

text \<open>\<^verbatim>\<open>criterion = nn.CrossEntropyLoss()\<close>, \<^verbatim>\<open>criterion = nn.NLLLoss()\<close>\<close>

definition new_criterion :: "criterion \<Rightarrow> ('t, 'f, 'r, 'x) stmt" where
  "new_criterion c s = (did (NewCriterion c) (s\<lparr>v_criterion := Some c\<rparr>), None)"

text \<open>\<^verbatim>\<open>optimizer = optim.SGD(model.parameters(), lr = 0.001)\<close>\<close>

definition new_optimizer :: "('t, 'f, 'r, 'x) torch \<Rightarrow> rat \<Rightarrow> ('t, 'f, 'r, 'x) stmt" where
  "new_optimizer L lr s =
     (case v_model s of
        None \<Rightarrow> raise ''model'' (NameError ''model'') s
      | Some m \<Rightarrow>
          if parameters m = [] then raise ''optim.SGD'' (LibraryError (empty_parameter_list L)) s
          else (did (NewSGD (parameters m) lr)
                  (s\<lparr>v_optimizer := Some \<lparr>opt_params = parameters m, opt_lr = lr\<rparr>\<rparr>), None))"

text \<open>\<^verbatim>\<open>epochs = 10\<close>\<close>

definition set_epochs :: "int \<Rightarrow> ('t, 'f, 'r, 'x) stmt" where
  "set_epochs n s = (s\<lparr>v_epochs := Some n\<rparr>, None)"

text \<open>\<^verbatim>\<open>images, labels = next(iter(trainloader))\<close>: a new iterator shuffles with the random
  generator; its first batch is taken.\<close>

definition next_batch :: "('t, 'f, 'r, 'x) torch \<Rightarrow> ('t, 'f, 'r, 'x) stmt" where
  "next_batch L s =
     (case v_trainloader s of
        None \<Rightarrow> raise ''trainloader'' (NameError ''trainloader'') s
      | Some ld \<Rightarrow>
          (case loader_iter L ld (rng s) of
             Inl x \<Rightarrow> raise ''iter(trainloader)'' (LibraryError x) s
           | Inr (bs, r) \<Rightarrow>
               (case bs of
                  [] \<Rightarrow> raise ''next'' StopIteration (did LoaderIter (s\<lparr>rng := r\<rparr>))
                | (im, lb) # _ \<Rightarrow>
                    (did LoaderIter
                       (s\<lparr>rng := r,
                          v_images := Some \<lparr>tval = im, leaves = []\<rparr>,
                          v_labels := Some \<lparr>tval = lb, leaves = []\<rparr>\<rparr>), None))))"

text \<open>The loop variables of \<^verbatim>\<open>for images, labels in trainloader\<close>.\<close>

definition bind_batch :: "'t \<times> 't \<Rightarrow> ('t, 'f, 'r, 'x) stmt" where
  "bind_batch b s =
     (s\<lparr>v_images := Some \<lparr>tval = fst b, leaves = []\<rparr>,
        v_labels := Some \<lparr>tval = snd b, leaves = []\<rparr>\<rparr>, None)"

text \<open>\<^verbatim>\<open>images = images.view(images.shape[0], -1)\<close>\<close>

definition flatten_images :: "('t, 'f, 'r, 'x) torch \<Rightarrow> ('t, 'f, 'r, 'x) stmt" where
  "flatten_images L s =
     (case v_images s of
        None \<Rightarrow> raise ''images'' (NameError ''images'') s
      | Some im \<Rightarrow>
          (case tshape L (tval im) of
             [] \<Rightarrow> raise ''images.shape[0]'' IndexError s
           | n # _ \<Rightarrow>
               (case tview L (tval im) [int n, - 1] of
                  Inl x \<Rightarrow> raise ''images.view'' (LibraryError x) s
                | Inr t \<Rightarrow>
                    (did (View [int n, - 1])
                       (s\<lparr>v_images := Some \<lparr>tval = t, leaves = track s (leaves im)\<rparr>\<rparr>), None))))"

text \<open>\<^verbatim>\<open>optimizer.zero_grad()\<close>\<close>

definition zero_grad :: "('t, 'f, 'r, 'x) torch \<Rightarrow> ('t, 'f, 'r, 'x) stmt" where
  "zero_grad L s =
     (case v_optimizer s of
        None \<Rightarrow> raise ''optimizer'' (NameError ''optimizer'') s
      | Some opt \<Rightarrow>
          (did ZeroGrad (s\<lparr>heap := zero_grads L (opt_params opt) (heap s)\<rparr>), None))"

text \<open>Calling a module on a tensor: the framework reads the current data of the module's
  parameters; in grad mode the result's history reaches them.\<close>

definition call_module ::
  "('t, 'f, 'r, 'x) torch \<Rightarrow> string \<Rightarrow> module \<Rightarrow> 't tensor
     \<Rightarrow> ('t tensor \<Rightarrow> ('t, 'f, 'r, 'x) notebook \<Rightarrow> ('t, 'f, 'r, 'x) notebook)
     \<Rightarrow> ('t, 'f, 'r, 'x) stmt" where
  "call_module L site m x assign s =
     (case forward L (layers_of m) (map (\<lambda>a. pdata (heap s a)) (parameters m)) (tval x) of
        Inl e \<Rightarrow> raise site (LibraryError e) s
      | Inr t \<Rightarrow>
          (did (Forward (module_id m) (grad_enabled s))
             (assign \<lparr>tval = t, leaves = track s (parameters m @ leaves x)\<rparr> s), None))"

text \<open>\<^verbatim>\<open>logits = model(images)\<close>\<close>

definition forward_pass :: "('t, 'f, 'r, 'x) torch \<Rightarrow> ('t, 'f, 'r, 'x) stmt" where
  "forward_pass L s =
     (case v_model s of
        None \<Rightarrow> raise ''model'' (NameError ''model'') s
      | Some m \<Rightarrow>
          (case v_images s of
             None \<Rightarrow> raise ''images'' (NameError ''images'') s
           | Some im \<Rightarrow> call_module L ''model(images)'' m im (\<lambda>t s. s\<lparr>v_logits := Some t\<rparr>) s))"

text \<open>\<^verbatim>\<open>loss = criterion(logits, labels)\<close>\<close>

definition compute_loss :: "('t, 'f, 'r, 'x) torch \<Rightarrow> ('t, 'f, 'r, 'x) stmt" where
  "compute_loss L s =
     (case v_criterion s of
        None \<Rightarrow> raise ''criterion'' (NameError ''criterion'') s
      | Some c \<Rightarrow>
          (case v_logits s of
             None \<Rightarrow> raise ''logits'' (NameError ''logits'') s
           | Some lg \<Rightarrow>
               (case v_labels s of
                  None \<Rightarrow> raise ''labels'' (NameError ''labels'') s
                | Some lb \<Rightarrow>
                    (case criterion_apply L c (tval lg) (tval lb) of
                       Inl e \<Rightarrow> raise ''criterion(logits, labels)'' (LibraryError e) s
                     | Inr t \<Rightarrow>
                         (did (Criterion c)
                            (s\<lparr>v_loss := Some \<lparr>tval = t, leaves = track s (leaves lg @ leaves lb)\<rparr>\<rparr>),
                          None)))))"

text \<open>\<^verbatim>\<open>loss.backward()\<close>\<close>

definition backward_pass :: "('t, 'f, 'r, 'x) torch \<Rightarrow> ('t, 'f, 'r, 'x) stmt" where
  "backward_pass L s =
     (case v_loss s of
        None \<Rightarrow> raise ''loss'' (NameError ''loss'') s
      | Some l \<Rightarrow>
          (case autograd L (tval l) (leaves l) of
             Inl e \<Rightarrow> raise ''loss.backward'' (LibraryError e) s
           | Inr gs \<Rightarrow>
               (did (Backward gs)
                  (s\<lparr>heap := accumulate L (zip (leaves l) gs) (heap s)\<rparr>), None)))"

text \<open>\<^verbatim>\<open>optimizer.step()\<close>. The logged call records the gradients the step reads.\<close>

definition optimizer_step :: "('t, 'f, 'r, 'x) torch \<Rightarrow> ('t, 'f, 'r, 'x) stmt" where
  "optimizer_step L s =
     (case v_optimizer s of
        None \<Rightarrow> raise ''optimizer'' (NameError ''optimizer'') s
      | Some opt \<Rightarrow>
          (did (Step (map (\<lambda>a. pgrad (heap s a)) (opt_params opt)))
             (s\<lparr>heap := sgd_step L (opt_lr opt) (opt_params opt) (heap s)\<rparr>), None))"

text \<open>Python's \<^verbatim>\<open>+\<close> of a number and a float, and \<^verbatim>\<open>/\<close> of a number by an int.\<close>

fun to_float :: "('t, 'f, 'r, 'x) torch \<Rightarrow> 'f pynum \<Rightarrow> 'f" where
  "to_float L (PyInt i) = float_of_int L i"
| "to_float L (PyFloat f) = f"

definition py_add_float :: "('t, 'f, 'r, 'x) torch \<Rightarrow> 'f pynum \<Rightarrow> 'f \<Rightarrow> 'f pynum" where
  "py_add_float L a x = PyFloat (fadd L (to_float L a) x)"

definition py_truediv :: "('t, 'f, 'r, 'x) torch \<Rightarrow> 'f pynum \<Rightarrow> nat \<Rightarrow> 'x exn + 'f" where
  "py_truediv L a n =
     (if n = 0 then Inl ZeroDivisionError
      else Inr (fdiv L (to_float L a) (float_of_int L (int n))))"

text \<open>\<^verbatim>\<open>running_loss += loss.item()\<close>\<close>

definition add_running_loss :: "('t, 'f, 'r, 'x) torch \<Rightarrow> ('t, 'f, 'r, 'x) stmt" where
  "add_running_loss L s =
     (case v_running_loss s of
        None \<Rightarrow> raise ''running_loss'' (NameError ''running_loss'') s
      | Some acc \<Rightarrow>
          (case v_loss s of
             None \<Rightarrow> raise ''loss'' (NameError ''loss'') s
           | Some l \<Rightarrow>
               (case item L (tval l) of
                  Inl e \<Rightarrow> raise ''loss.item'' (LibraryError e) s
                | Inr x \<Rightarrow>
                    (did (Item x) (s\<lparr>v_running_loss := Some (py_add_float L acc x)\<rparr>), None))))"

text \<open>The body of the loop over \<^verbatim>\<open>trainloader\<close> in the training cell.\<close>

definition training_pass :: "('t, 'f, 'r, 'x) torch \<Rightarrow> 't \<times> 't \<Rightarrow> ('t, 'f, 'r, 'x) stmt" where
  "training_pass L b =
     run [bind_batch b,
          flatten_images L,
          zero_grad L,
          forward_pass L,
          compute_loss L,
          backward_pass L,
          optimizer_step L,
          add_running_loss L]"

text \<open>\<^verbatim>\<open>for images, labels in trainloader: ...\<close>: a new iterator over the loader, then the body
  for each batch it yields.\<close>

definition for_batches ::
  "('t, 'f, 'r, 'x) torch \<Rightarrow> ('t \<times> 't \<Rightarrow> ('t, 'f, 'r, 'x) stmt) \<Rightarrow> ('t, 'f, 'r, 'x) stmt" where
  "for_batches L body s =
     (case v_trainloader s of
        None \<Rightarrow> raise ''trainloader'' (NameError ''trainloader'') s
      | Some ld \<Rightarrow>
          (case loader_iter L ld (rng s) of
             Inl x \<Rightarrow> raise ''iter(trainloader)'' (LibraryError x) s
           | Inr (bs, r) \<Rightarrow> for_each bs body (did LoaderIter (s\<lparr>rng := r\<rparr>))))"

text \<open>\<^verbatim>\<open>print(f"Training loss: {running_loss/len(trainloader)}")\<close>\<close>

definition training_loss_line :: "('t, 'f, 'r, 'x) torch \<Rightarrow> 'f \<Rightarrow> string" where
  "training_loss_line L q = ''Training loss: '' @ repr_float L q"

definition print_training_loss :: "('t, 'f, 'r, 'x) torch \<Rightarrow> ('t, 'f, 'r, 'x) stmt" where
  "print_training_loss L s =
     (case v_running_loss s of
        None \<Rightarrow> raise ''running_loss'' (NameError ''running_loss'') s
      | Some acc \<Rightarrow>
          (case v_trainloader s of
             None \<Rightarrow> raise ''trainloader'' (NameError ''trainloader'') s
           | Some ld \<Rightarrow>
               (case py_truediv L acc (loader_len L ld) of
                  Inl e \<Rightarrow> raise ''running_loss/len(trainloader)'' e s
                | Inr q \<Rightarrow> (s\<lparr>stdout := stdout s @ [training_loss_line L q]\<rparr>, None))))"

text \<open>The body of \<^verbatim>\<open>for epoch in range(epochs)\<close>: the loop variable, the reset
  \<^verbatim>\<open>running_loss = 0\<close>, the loop over the batches, and its \<^verbatim>\<open>else\<close> branch, which runs
  when the loop ends.\<close>

definition bind_epoch :: "int \<Rightarrow> ('t, 'f, 'r, 'x) stmt" where
  "bind_epoch e s = (s\<lparr>v_epoch := Some e\<rparr>, None)"

definition reset_running_loss :: "('t, 'f, 'r, 'x) stmt" where
  "reset_running_loss s = (s\<lparr>v_running_loss := Some (PyInt 0)\<rparr>, None)"

definition train_epoch :: "('t, 'f, 'r, 'x) torch \<Rightarrow> int \<Rightarrow> ('t, 'f, 'r, 'x) stmt" where
  "train_epoch L e =
     run [bind_epoch e,
          reset_running_loss,
          for_batches L (training_pass L),
          print_training_loss L]"

text \<open>\<^verbatim>\<open>for epoch in range(epochs): ...\<close>\<close>

definition py_range :: "int \<Rightarrow> int list" where
  "py_range n = map int [0 ..< nat n]"

definition for_epochs :: "(int \<Rightarrow> ('t, 'f, 'r, 'x) stmt) \<Rightarrow> ('t, 'f, 'r, 'x) stmt" where
  "for_epochs body s =
     (case v_epochs s of
        None \<Rightarrow> raise ''epochs'' (NameError ''epochs'') s
      | Some n \<Rightarrow> for_each (py_range n) body s)"

subsection \<open>Statements of the cells before the training cell\<close>

text \<open>\<^verbatim>\<open>trainset = datasets.MNIST('~/.pytorch/MNIST_data/', download=True, train=True,
  transform=transform)\<close>, with the transform composed just before it.\<close>

definition load_trainset :: "('t, 'f, 'r, 'x) torch \<Rightarrow> ('t, 'f, 'r, 'x) stmt" where
  "load_trainset L s =
     (case load_mnist L of
        Inl x \<Rightarrow> raise ''datasets.MNIST'' (LibraryError x) s
      | Inr u \<Rightarrow> (did LoadDataset (s\<lparr>v_trainset := Some ()\<rparr>), None))"

text \<open>\<^verbatim>\<open>trainloader = torch.utils.data.DataLoader(trainset, batch_size=64, shuffle=True)\<close>\<close>

definition new_loader :: "nat \<Rightarrow> bool \<Rightarrow> ('t, 'f, 'r, 'x) stmt" where
  "new_loader batch_size shuffle s =
     (case v_trainset s of
        None \<Rightarrow> raise ''trainset'' (NameError ''trainset'') s
      | Some u \<Rightarrow>
          (did (NewLoader batch_size shuffle)
             (s\<lparr>v_trainloader := Some (DataLoader batch_size shuffle)\<rparr>), None))"

text \<open>\<^verbatim>\<open>x = torch.randn(2,2, requires_grad=True)\<close>: a new leaf tensor, with a \<^verbatim>\<open>.grad\<close> of
  its own.\<close>

definition new_x :: "('t, 'f, 'r, 'x) torch \<Rightarrow> ('t, 'f, 'r, 'x) stmt" where
  "new_x L s =
     (case randn L [2, 2] (rng s) of
        (t, r) \<Rightarrow>
          (did (Randn [2, 2] (next_addr s))
             (s\<lparr>heap := (heap s)(next_addr s := \<lparr>pdata = t, pgrad = None\<rparr>),
                next_addr := Suc (next_addr s),
                rng := r,
                v_x := Some (next_addr s)\<rparr>), None))"

text \<open>\<^verbatim>\<open>print(x)\<close>\<close>

definition print_x :: "('t, 'f, 'r, 'x) torch \<Rightarrow> ('t, 'f, 'r, 'x) stmt" where
  "print_x L s =
     (case v_x s of
        None \<Rightarrow> raise ''x'' (NameError ''x'') s
      | Some a \<Rightarrow> (s\<lparr>stdout := stdout s @ [repr_tensor L (pdata (heap s a))]\<rparr>, None))"

text \<open>\<^verbatim>\<open>y = x**2\<close>\<close>

definition square_x :: "('t, 'f, 'r, 'x) torch \<Rightarrow> ('t, 'f, 'r, 'x) stmt" where
  "square_x L s =
     (case v_x s of
        None \<Rightarrow> raise ''x'' (NameError ''x'') s
      | Some a \<Rightarrow>
          (case tpow L (pdata (heap s a)) 2 of
             Inl e \<Rightarrow> raise ''x**2'' (LibraryError e) s
           | Inr t \<Rightarrow> (did (Pow 2) (s\<lparr>v_y := Some \<lparr>tval = t, leaves = track s [a]\<rparr>\<rparr>), None)))"

text \<open>\<^verbatim>\<open>print(y)\<close>, \<^verbatim>\<open>print(z)\<close>: printing the tensor bound to a name.\<close>

definition print_tensor ::
  "('t, 'f, 'r, 'x) torch \<Rightarrow> string \<Rightarrow> (('t, 'f, 'r, 'x) notebook \<Rightarrow> 't tensor option)
     \<Rightarrow> ('t, 'f, 'r, 'x) stmt" where
  "print_tensor L name var s =
     (case var s of
        None \<Rightarrow> raise name (NameError name) s
      | Some t \<Rightarrow> (s\<lparr>stdout := stdout s @ [repr_tensor L (tval t)]\<rparr>, None))"

text \<open>\<^verbatim>\<open>print(y.grad_fn)\<close>\<close>

definition print_grad_fn :: "('t, 'f, 'r, 'x) torch \<Rightarrow> ('t, 'f, 'r, 'x) stmt" where
  "print_grad_fn L s =
     (case v_y s of
        None \<Rightarrow> raise ''y'' (NameError ''y'') s
      | Some t \<Rightarrow> (s\<lparr>stdout := stdout s @ [repr_grad_fn L (tval t)]\<rparr>, None))"

text \<open>\<^verbatim>\<open>z = y.mean()\<close>\<close>

definition mean_y :: "('t, 'f, 'r, 'x) torch \<Rightarrow> ('t, 'f, 'r, 'x) stmt" where
  "mean_y L s =
     (case v_y s of
        None \<Rightarrow> raise ''y'' (NameError ''y'') s
      | Some y \<Rightarrow>
          (case tmean L (tval y) of
             Inl e \<Rightarrow> raise ''y.mean'' (LibraryError e) s
           | Inr t \<Rightarrow>
               (did Mean (s\<lparr>v_z := Some \<lparr>tval = t, leaves = track s (leaves y)\<rparr>\<rparr>), None)))"

text \<open>How \<^verbatim>\<open>print\<close> shows a \<^verbatim>\<open>.grad\<close> field.\<close>

definition repr_grad :: "('t, 'f, 'r, 'x) torch \<Rightarrow> 't option \<Rightarrow> string" where
  "repr_grad L g = (case g of None \<Rightarrow> ''None'' | Some t \<Rightarrow> repr_tensor L t)"

text \<open>\<^verbatim>\<open>print(x.grad)\<close>\<close>

definition print_x_grad :: "('t, 'f, 'r, 'x) torch \<Rightarrow> ('t, 'f, 'r, 'x) stmt" where
  "print_x_grad L s =
     (case v_x s of
        None \<Rightarrow> raise ''x'' (NameError ''x'') s
      | Some a \<Rightarrow> (s\<lparr>stdout := stdout s @ [repr_grad L (pgrad (heap s a))]\<rparr>, None))"

text \<open>\<^verbatim>\<open>z.backward()\<close>\<close>

definition backward_z :: "('t, 'f, 'r, 'x) torch \<Rightarrow> ('t, 'f, 'r, 'x) stmt" where
  "backward_z L s =
     (case v_z s of
        None \<Rightarrow> raise ''z'' (NameError ''z'') s
      | Some z \<Rightarrow>
          (case autograd L (tval z) (leaves z) of
             Inl e \<Rightarrow> raise ''z.backward'' (LibraryError e) s
           | Inr gs \<Rightarrow>
               (did (Backward gs)
                  (s\<lparr>heap := accumulate L (zip (leaves z) gs) (heap s)\<rparr>), None)))"

text \<open>\<^verbatim>\<open>print(x/2)\<close>\<close>

definition print_half_x :: "('t, 'f, 'r, 'x) torch \<Rightarrow> ('t, 'f, 'r, 'x) stmt" where
  "print_half_x L s =
     (case v_x s of
        None \<Rightarrow> raise ''x'' (NameError ''x'') s
      | Some a \<Rightarrow>
          (case tdiv L (pdata (heap s a)) 2 of
             Inl e \<Rightarrow> raise ''x/2'' (LibraryError e) s
           | Inr t \<Rightarrow> (did (Div 2) (s\<lparr>stdout := stdout s @ [repr_tensor L t]\<rparr>), None)))"

text \<open>\<^verbatim>\<open>model[0].weight\<close>: the weight of the first layer of the model.\<close>

definition first_weight :: "('t, 'f, 'r, 'x) notebook \<Rightarrow> 'x exn + addr" where
  "first_weight s =
     (case v_model s of
        None \<Rightarrow> Inl (NameError ''model'')
      | Some m \<Rightarrow>
          (case layers_of m of
             [] \<Rightarrow> Inl IndexError
           | Linear i out w b # _ \<Rightarrow> Inr w
           | ReLU # _ \<Rightarrow> Inl (AttributeError ''weight'')
           | LogSoftmax d # _ \<Rightarrow> Inl (AttributeError ''weight'')))"

text \<open>\<^verbatim>\<open>print('Before backward pass: \n', model[0].weight.grad)\<close> and its like: the label,
  a space, and the gradient.\<close>

definition print_weight_grad :: "('t, 'f, 'r, 'x) torch \<Rightarrow> string \<Rightarrow> ('t, 'f, 'r, 'x) stmt" where
  "print_weight_grad L label s =
     (case first_weight s of
        Inl e \<Rightarrow> raise ''model[0].weight'' e s
      | Inr w \<Rightarrow>
          (s\<lparr>stdout := stdout s @ [label @ '' '' @ repr_grad L (pgrad (heap s w))]\<rparr>, None))"

text \<open>\<^verbatim>\<open>print('Initial weights - ', model[0].weight)\<close> and its like.\<close>

definition print_weight :: "('t, 'f, 'r, 'x) torch \<Rightarrow> string \<Rightarrow> ('t, 'f, 'r, 'x) stmt" where
  "print_weight L label s =
     (case first_weight s of
        Inl e \<Rightarrow> raise ''model[0].weight'' e s
      | Inr w \<Rightarrow>
          (s\<lparr>stdout := stdout s @ [label @ '' '' @ repr_parameter L (pdata (heap s w))]\<rparr>, None))"

text \<open>\<^verbatim>\<open>images.resize_(64, 784)\<close>: in place.\<close>

definition resize_images :: "('t, 'f, 'r, 'x) torch \<Rightarrow> ('t, 'f, 'r, 'x) stmt" where
  "resize_images L s =
     (case v_images s of
        None \<Rightarrow> raise ''images'' (NameError ''images'') s
      | Some im \<Rightarrow>
          (case tresize L (tval im) [64, 784] of
             Inl x \<Rightarrow> raise ''images.resize_'' (LibraryError x) s
           | Inr t \<Rightarrow>
               (did (Resize [64, 784])
                  (s\<lparr>v_images := Some \<lparr>tval = t, leaves = leaves im\<rparr>\<rparr>), None)))"

text \<open>\<^verbatim>\<open>output = model(images)\<close>\<close>

definition forward_output :: "('t, 'f, 'r, 'x) torch \<Rightarrow> ('t, 'f, 'r, 'x) stmt" where
  "forward_output L s =
     (case v_model s of
        None \<Rightarrow> raise ''model'' (NameError ''model'') s
      | Some m \<Rightarrow>
          (case v_images s of
             None \<Rightarrow> raise ''images'' (NameError ''images'') s
           | Some im \<Rightarrow> call_module L ''model(images)'' m im (\<lambda>t s. s\<lparr>v_output := Some t\<rparr>) s))"

text \<open>\<^verbatim>\<open>loss = criterion(output, labels)\<close>\<close>

definition compute_loss_of_output :: "('t, 'f, 'r, 'x) torch \<Rightarrow> ('t, 'f, 'r, 'x) stmt" where
  "compute_loss_of_output L s =
     (case v_criterion s of
        None \<Rightarrow> raise ''criterion'' (NameError ''criterion'') s
      | Some c \<Rightarrow>
          (case v_output s of
             None \<Rightarrow> raise ''output'' (NameError ''output'') s
           | Some lg \<Rightarrow>
               (case v_labels s of
                  None \<Rightarrow> raise ''labels'' (NameError ''labels'') s
                | Some lb \<Rightarrow>
                    (case criterion_apply L c (tval lg) (tval lb) of
                       Inl e \<Rightarrow> raise ''criterion(output, labels)'' (LibraryError e) s
                     | Inr t \<Rightarrow>
                         (did (Criterion c)
                            (s\<lparr>v_loss := Some \<lparr>tval = t, leaves = track s (leaves lg @ leaves lb)\<rparr>\<rparr>),
                          None)))))"

subsection \<open>The cells\<close>

text \<open>The layers of the first forward-pass cell, and those of the training cell.\<close>

definition logits_layers :: "layer_ctor list" where
  "logits_layers = [NNLinear 784 128, NNReLU, NNLinear 128 64, NNReLU, NNLinear 64 10]"

definition log_softmax_layers :: "layer_ctor list" where
  "log_softmax_layers =
     [NNLinear 784 128, NNReLU, NNLinear 128 64, NNReLU, NNLinear 64 10, NNLogSoftmax 1]"

text \<open>\<^verbatim>\<open>print(loss)\<close>\<close>

definition print_loss :: "('t, 'f, 'r, 'x) torch \<Rightarrow> ('t, 'f, 'r, 'x) stmt" where
  "print_loss L s =
     (case v_loss s of
        None \<Rightarrow> raise ''loss'' (NameError ''loss'') s
      | Some l \<Rightarrow> (s\<lparr>stdout := stdout s @ [repr_tensor L (tval l)]\<rparr>, None))"

text \<open>The first forward-pass cell: a model without a final log-softmax, the cross-entropy
  criterion, one batch, its logits and its loss.\<close>

definition first_forward_cell :: "('t, 'f, 'r, 'x) torch \<Rightarrow> ('t, 'f, 'r, 'x) stmt" where
  "first_forward_cell L =
     run [new_model L logits_layers,
          new_criterion CrossEntropyLoss,
          next_batch L,
          flatten_images L,
          forward_pass L,
          compute_loss L,
          print_loss L]"

text \<open>The training cell.\<close>

definition training_cell :: "('t, 'f, 'r, 'x) torch \<Rightarrow> ('t, 'f, 'r, 'x) stmt" where
  "training_cell L =
     run [new_model L log_softmax_layers,
          new_criterion NLLLoss,
          new_optimizer L (1 / 1000),
          set_epochs 10,
          for_epochs (train_epoch L)]"

text \<open>\<^verbatim>\<open>img = images[0].view(1, 784)\<close>\<close>

definition take_first_image :: "('t, 'f, 'r, 'x) torch \<Rightarrow> ('t, 'f, 'r, 'x) stmt" where
  "take_first_image L s =
     (case v_images s of
        None \<Rightarrow> raise ''images'' (NameError ''images'') s
      | Some im \<Rightarrow>
          (case tselect L (tval im) 0 of
             Inl x \<Rightarrow> raise ''images[0]'' (LibraryError x) s
           | Inr t0 \<Rightarrow>
               (case tview L t0 [1, 784] of
                  Inl x \<Rightarrow> raise ''view'' (LibraryError x) (did (Select 0) s)
                | Inr t \<Rightarrow>
                    (did (View [1, 784])
                       (did (Select 0)
                          (s\<lparr>v_img := Some \<lparr>tval = t, leaves = track s (leaves im)\<rparr>\<rparr>)), None))))"

text \<open>\<^verbatim>\<open>with torch.no_grad(): ...\<close>: grad mode is switched off for the block and restored
  when the block is left, also by an exception.\<close>

definition with_no_grad :: "('t, 'f, 'r, 'x) stmt \<Rightarrow> ('t, 'f, 'r, 'x) stmt" where
  "with_no_grad body s =
     (case body (s\<lparr>grad_enabled := False\<rparr>) of
        (s', r) \<Rightarrow> (s'\<lparr>grad_enabled := grad_enabled s\<rparr>, r))"

text \<open>\<^verbatim>\<open>logps = model(img)\<close>\<close>

definition predict :: "('t, 'f, 'r, 'x) torch \<Rightarrow> ('t, 'f, 'r, 'x) stmt" where
  "predict L s =
     (case v_model s of
        None \<Rightarrow> raise ''model'' (NameError ''model'') s
      | Some m \<Rightarrow>
          (case v_img s of
             None \<Rightarrow> raise ''img'' (NameError ''img'') s
           | Some im \<Rightarrow> call_module L ''model(img)'' m im (\<lambda>t s. s\<lparr>v_logps := Some t\<rparr>) s))"

text \<open>\<^verbatim>\<open>ps = torch.exp(logps)\<close>\<close>

definition exp_logps :: "('t, 'f, 'r, 'x) torch \<Rightarrow> ('t, 'f, 'r, 'x) stmt" where
  "exp_logps L s =
     (case v_logps s of
        None \<Rightarrow> raise ''logps'' (NameError ''logps'') s
      | Some lp \<Rightarrow>
          (case texp L (tval lp) of
             Inl x \<Rightarrow> raise ''torch.exp'' (LibraryError x) s
           | Inr t \<Rightarrow>
               (did Exp (s\<lparr>v_ps := Some \<lparr>tval = t, leaves = track s (leaves lp)\<rparr>\<rparr>), None)))"

text \<open>\<^verbatim>\<open>helper.view_classify(img.view(1, 28, 28), ps)\<close>: the helper receives the two tensors
  and draws them.\<close>

definition show_prediction :: "('t, 'f, 'r, 'x) torch \<Rightarrow> ('t, 'f, 'r, 'x) stmt" where
  "show_prediction L s =
     (case v_img s of
        None \<Rightarrow> raise ''img'' (NameError ''img'') s
      | Some im \<Rightarrow>
          (case tview L (tval im) [1, 28, 28] of
             Inl x \<Rightarrow> raise ''img.view'' (LibraryError x) s
           | Inr t \<Rightarrow>
               (case v_ps s of
                  None \<Rightarrow> raise ''ps'' (NameError ''ps'') (did (View [1, 28, 28]) s)
                | Some p \<Rightarrow>
                    (case view_classify L t (tval p) of
                       Inl x \<Rightarrow>
                         raise ''helper.view_classify'' (LibraryError x) (did (View [1, 28, 28]) s)
                     | Inr u \<Rightarrow> (did ViewClassify (did (View [1, 28, 28]) s), None)))))"

text \<open>The prediction cell. Its first two lines, a plotting directive and the import of
  the helper, bind nothing that the cells read.\<close>

definition prediction_cell :: "('t, 'f, 'r, 'x) torch \<Rightarrow> ('t, 'f, 'r, 'x) stmt" where
  "prediction_cell L =
     run [next_batch L,
          take_first_image L,
          with_no_grad (predict L),
          exp_logps L,
          show_prediction L]"

text \<open>The other code cells, in the order of the notebook: the imports and the data; the
  model with a log-softmax output and its loss; the six cells on autograd; the model, its
  loss and one backward pass; the optimizer; one training step in two cells.\<close>

definition data_cell :: "('t, 'f, 'r, 'x) torch \<Rightarrow> ('t, 'f, 'r, 'x) stmt" where
  "data_cell L = run [load_trainset L, new_loader 64 True]"

definition log_softmax_cell :: "('t, 'f, 'r, 'x) torch \<Rightarrow> ('t, 'f, 'r, 'x) stmt" where
  "log_softmax_cell L =
     run [new_model L log_softmax_layers,
          new_criterion NLLLoss,
          next_batch L,
          flatten_images L,
          forward_pass L,
          compute_loss L,
          print_loss L]"

definition x_cell :: "('t, 'f, 'r, 'x) torch \<Rightarrow> ('t, 'f, 'r, 'x) stmt" where
  "x_cell L = run [new_x L, print_x L]"

definition y_cell :: "('t, 'f, 'r, 'x) torch \<Rightarrow> ('t, 'f, 'r, 'x) stmt" where
  "y_cell L = run [square_x L, print_tensor L ''y'' v_y]"

definition grad_fn_cell :: "('t, 'f, 'r, 'x) torch \<Rightarrow> ('t, 'f, 'r, 'x) stmt" where
  "grad_fn_cell L = run [print_grad_fn L]"

definition z_cell :: "('t, 'f, 'r, 'x) torch \<Rightarrow> ('t, 'f, 'r, 'x) stmt" where
  "z_cell L = run [mean_y L, print_tensor L ''z'' v_z]"

definition x_grad_cell :: "('t, 'f, 'r, 'x) torch \<Rightarrow> ('t, 'f, 'r, 'x) stmt" where
  "x_grad_cell L = run [print_x_grad L]"

definition z_backward_cell :: "('t, 'f, 'r, 'x) torch \<Rightarrow> ('t, 'f, 'r, 'x) stmt" where
  "z_backward_cell L = run [backward_z L, print_x_grad L, print_half_x L]"

definition model_loss_cell :: "('t, 'f, 'r, 'x) torch \<Rightarrow> ('t, 'f, 'r, 'x) stmt" where
  "model_loss_cell L =
     run [new_model L log_softmax_layers,
          next_batch L,
          flatten_images L,
          new_criterion NLLLoss,
          forward_pass L,
          compute_loss L,
          print_loss L]"

definition backward_cell :: "('t, 'f, 'r, 'x) torch \<Rightarrow> ('t, 'f, 'r, 'x) stmt" where
  "backward_cell L =
     run [print_weight_grad L (''Before backward pass: '' @ [CHR 0x0A]),
          backward_pass L,
          print_weight_grad L (''After backward pass: '' @ [CHR 0x0A])]"

definition optimizer_cell :: "('t, 'f, 'r, 'x) torch \<Rightarrow> ('t, 'f, 'r, 'x) stmt" where
  "optimizer_cell L = run [new_optimizer L (1 / 100)]"

definition one_step_cell :: "('t, 'f, 'r, 'x) torch \<Rightarrow> ('t, 'f, 'r, 'x) stmt" where
  "one_step_cell L =
     run [print_weight L ''Initial weights - '',
          next_batch L,
          resize_images L,
          zero_grad L,
          forward_output L,
          compute_loss_of_output L,
          backward_pass L,
          print_weight_grad L ''Gradient -'']"

definition update_cell :: "('t, 'f, 'r, 'x) torch \<Rightarrow> ('t, 'f, 'r, 'x) stmt" where
  "update_cell L = run [optimizer_step L, print_weight L ''Updated weights - '']"

text \<open>The code cells of the notebook, in order.\<close>

definition code_cells :: "('t, 'f, 'r, 'x) torch \<Rightarrow> ('t, 'f, 'r, 'x) stmt list" where
  "code_cells L =
     [data_cell L, first_forward_cell L, log_softmax_cell L, x_cell L, y_cell L,
      grad_fn_cell L, z_cell L, x_grad_cell L, z_backward_cell L, model_loss_cell L,
      backward_cell L, optimizer_cell L, one_step_cell L, update_cell L, training_cell L,
      prediction_cell L]"

subsection \<open>The output captured in the notebook\<close>


section \<open>What is observed of a run\<close>

text \<open>The events a statement added to the log.\<close>

definition new_calls ::
  "('t, 'f, 'r, 'x) notebook \<Rightarrow> ('t, 'f, 'r, 'x) notebook \<Rightarrow> ('t, 'f, 'x) event list" where
  "new_calls s s' = drop (length (calls s)) (calls s')"

subsection \<open>The kinds of calls, in order\<close>

datatype call_kind =
    KNewLinear | KNewSequential | KNewCriterion | KNewSGD | KLoaderIter | KView | KSelect
  | KZeroGrad | KForward | KCriterion | KBackward | KStep | KItem | KExp | KViewClassify
  | KLoadDataset | KNewLoader | KRandn | KPow | KMean | KDiv | KResize

fun kind_of :: "('t, 'f) call \<Rightarrow> call_kind" where
  "kind_of (NewLinear i out w b) = KNewLinear"
| "kind_of (NewSequential mid) = KNewSequential"
| "kind_of (NewCriterion c) = KNewCriterion"
| "kind_of (NewSGD ps lr) = KNewSGD"
| "kind_of LoaderIter = KLoaderIter"
| "kind_of (View sh) = KView"
| "kind_of (Select i) = KSelect"
| "kind_of ZeroGrad = KZeroGrad"
| "kind_of (Forward mid g) = KForward"
| "kind_of (Criterion c) = KCriterion"
| "kind_of (Backward gs) = KBackward"
| "kind_of (Step hs) = KStep"
| "kind_of (Item x) = KItem"
| "kind_of Exp = KExp"
| "kind_of ViewClassify = KViewClassify"
| "kind_of LoadDataset = KLoadDataset"
| "kind_of (NewLoader batch_size shuffle) = KNewLoader"
| "kind_of (Randn sh a) = KRandn"
| "kind_of (Pow k) = KPow"
| "kind_of Mean = KMean"
| "kind_of (Div k) = KDiv"
| "kind_of (Resize sh) = KResize"

fun kinds :: "('t, 'f, 'x) event list \<Rightarrow> call_kind list" where
  "kinds [] = []"
| "kinds (Did c # es) = kind_of c # kinds es"
| "kinds (Raised site e # es) = kinds es"

text \<open>The calls of one pass of the training loop, and of the set-up of the training cell.\<close>

definition pass_kinds :: "call_kind list" where
  "pass_kinds = [KView, KZeroGrad, KForward, KCriterion, KBackward, KStep, KItem]"

definition setup_kinds :: "call_kind list" where
  "setup_kinds = [KNewLinear, KNewLinear, KNewLinear, KNewSequential, KNewCriterion, KNewSGD]"

definition epoch_kinds :: "nat \<Rightarrow> call_kind list" where
  "epoch_kinds n = KLoaderIter # concat (replicate n pass_kinds)"

text \<open>The five phases of a gradient-descent iteration among the calls.\<close>

fun is_phase :: "call_kind \<Rightarrow> bool" where
  "is_phase KZeroGrad = True"
| "is_phase KForward = True"
| "is_phase KCriterion = True"
| "is_phase KBackward = True"
| "is_phase KStep = True"
| "is_phase k = False"

definition phases :: "('t, 'f, 'x) event list \<Rightarrow> call_kind list" where
  "phases es = filter is_phase (kinds es)"

subsection \<open>Exceptions in the log\<close>


subsection \<open>Calls that only read a model\<close>

text \<open>Calls that construct nothing and update nothing; a forward pass among them runs with
  grad mode off, on the module with the given identity.\<close>

fun reading_call :: "addr option \<Rightarrow> ('t, 'f) call \<Rightarrow> bool" where
  "reading_call m (Forward mid g) = (\<not> g \<and> m = Some mid)"
| "reading_call m LoaderIter = True"
| "reading_call m (Select i) = True"
| "reading_call m (View sh) = True"
| "reading_call m Exp = True"
| "reading_call m ViewClassify = True"
| "reading_call m c = False"

fun reading_event :: "addr option \<Rightarrow> ('t, 'f, 'x) event \<Rightarrow> bool" where
  "reading_event m (Did c) = reading_call m c"
| "reading_event m (Raised site e) = True"

text \<open>Calls that construct nothing; a forward pass among them is on the module with the
  given identity.\<close>

fun uses_model_call :: "addr option \<Rightarrow> ('t, 'f) call \<Rightarrow> bool" where
  "uses_model_call m (Forward mid g) = (m = Some mid)"
| "uses_model_call m (NewLinear i out w b) = False"
| "uses_model_call m (NewSequential mid) = False"
| "uses_model_call m (NewCriterion c) = False"
| "uses_model_call m (NewSGD ps lr) = False"
| "uses_model_call m c = True"

fun uses_model :: "addr option \<Rightarrow> ('t, 'f, 'x) event \<Rightarrow> bool" where
  "uses_model m (Did c) = uses_model_call m c"
| "uses_model m (Raised site e) = True"

subsection \<open>The losses of an epoch\<close>

text \<open>The values of \<^verbatim>\<open>loss.item()\<close> in a log, split at the starts of the loops over the
  loader: the values before the first such start, and those of each loop.\<close>

fun split_epochs :: "('t, 'f, 'x) event list \<Rightarrow> 'f list \<times> 'f list list" where
  "split_epochs [] = ([], [])"
| "split_epochs (Did LoaderIter # es) = (case split_epochs es of (cur, eps) \<Rightarrow> ([], cur # eps))"
| "split_epochs (Did (Item x) # es) = (case split_epochs es of (cur, eps) \<Rightarrow> (x # cur, eps))"
| "split_epochs (e # es) = split_epochs es"

definition losses_by_epoch :: "('t, 'f, 'x) event list \<Rightarrow> 'f list list" where
  "losses_by_epoch es = snd (split_epochs es)"

text \<open>The sum of the losses, added from the left starting at \<^verbatim>\<open>0\<close>, divided by
  \<^verbatim>\<open>len(trainloader)\<close>, in Python's float arithmetic.\<close>

definition mean_loss :: "('t, 'f, 'r, 'x) torch \<Rightarrow> nat \<Rightarrow> 'f list \<Rightarrow> 'f" where
  "mean_loss L n xs = fdiv L (foldl (fadd L) (float_of_int L 0) xs) (float_of_int L (int n))"

subsection \<open>The gradients a step reads\<close>

text \<open>A monitor over the log. After \<^verbatim>\<open>zero_grad\<close> the gradients are zeroed; one backward
  pass then makes them the gradients of that pass; anything else leaves them stale. A
  step is accepted only when it reads exactly the gradients of the one backward pass made
  since the last \<^verbatim>\<open>zero_grad\<close>.\<close>

datatype 't grad_state = Stale | Zeroed | Fresh "'t list"

fun grad_monitor ::
  "'t grad_state \<Rightarrow> ('t, 'f, 'x) event list \<Rightarrow> 't grad_state option" where
  "grad_monitor st [] = Some st"
| "grad_monitor st (Did ZeroGrad # es) = grad_monitor Zeroed es"
| "grad_monitor st (Did (Backward gs) # es) =
     grad_monitor (case st of Zeroed \<Rightarrow> Fresh gs | _ \<Rightarrow> Stale) es"
| "grad_monitor st (Did (Step hs) # es) =
     (case st of
        Fresh gs \<Rightarrow> if hs = map Some gs then grad_monitor Stale es else None
      | _ \<Rightarrow> None)"
| "grad_monitor st (e # es) = grad_monitor st es"

fun count_steps :: "('t, 'f, 'x) event list \<Rightarrow> nat" where
  "count_steps [] = 0"
| "count_steps (Did (Step hs) # es) = Suc (count_steps es)"
| "count_steps (e # es) = count_steps es"

subsection \<open>Layers and their feature sizes\<close>



section \<open>A small instance of the framework\<close>

text \<open>Tensors and floats are integers, the random generator is a counter. Initial
  parameters and the batches of the loader depend on the generator, as random
  initialisation and shuffling do. The cells can be executed on it.\<close>

definition toy_torch :: "(int, int, nat, unit) torch" where
  "toy_torch =
     \<lparr>init_linear = (\<lambda>i out r. ((int r, int r + 1), Suc r)),
      empty_parameter_list = (),
      load_mnist = Inr (),
      loader_iter = (\<lambda>ld r. case ld of DataLoader batch_size shuffle \<Rightarrow>
                       if shuffle then Inr ([(int r + 2, 1), (3, 1)], Suc r)
                       else Inr ([(2, 1), (3, 1)], r)),
      loader_len = (\<lambda>ld. 2),
      randn = (\<lambda>sh r. (int r, Suc r)),
      tpow = (\<lambda>t k. Inr (t * t)),
      tmean = (\<lambda>t. Inr t),
      tdiv = (\<lambda>t k. Inr (t div k)),
      tresize = (\<lambda>t sh. Inr t),
      tshape = (\<lambda>t. [64, 1, 28, 28]),
      tview = (\<lambda>t sh. Inr t),
      tselect = (\<lambda>t i. Inr t),
      texp = (\<lambda>t. Inr t),
      forward = (\<lambda>ls ps x. Inr (sum_list ps + x)),
      criterion_apply = (\<lambda>c lg lb. Inr (lg - lb)),
      autograd = (\<lambda>l as. Inr (map (\<lambda>a. 1) as)),
      zeros_like = (\<lambda>t. 0),
      tadd = (\<lambda>a b. a + b),
      sgd_update = (\<lambda>lr p g. p - g),
      item = (\<lambda>t. Inr t),
      float_of_int = (\<lambda>i. i),
      fadd = (\<lambda>a b. a + b),
      fdiv = (\<lambda>a b. a div b),
      repr_float = (\<lambda>f. if f < 0 then ''-'' else replicate (nat f) (CHR ''|'')),
      repr_tensor = (\<lambda>t. if t < 0 then ''-'' else replicate (nat t) (CHR ''|'')),
      repr_grad_fn = (\<lambda>t. ''<PowBackward0>''),
      repr_parameter = (\<lambda>t. if t < 0 then ''-'' else replicate (nat t) (CHR ''|'')),
      view_classify = (\<lambda>a b. Inr ())\<rparr>"

text \<open>The same instance with a loader that does not shuffle, and with an initialisation
  that is not random.\<close>

definition toy_unshuffled :: "(int, int, nat, unit) torch" where
  "toy_unshuffled = toy_torch\<lparr>loader_iter := (\<lambda>ld r. Inr ([(2, 1), (3, 1)], r))\<rparr>"

definition toy_fixed_init :: "(int, int, nat, unit) torch" where
  "toy_fixed_init = toy_torch\<lparr>init_linear := (\<lambda>i out r. ((0, 1), r))\<rparr>"

text \<open>A kernel in which no cell has run, with the generator in the given state, and one
  in which the first code cell has run.\<close>

definition fresh_kernel :: "nat \<Rightarrow> (int, int, nat, unit) notebook" where
  "fresh_kernel seed =
     \<lparr>heap = (\<lambda>a. \<lparr>pdata = 0, pgrad = None\<rparr>),
      next_addr = 0,
      rng = seed,
      grad_enabled = True,
      stdout = [],
      calls = [],
      v_trainset = None, v_trainloader = None, v_x = None, v_y = None, v_z = None,
      v_output = None,
      v_model = None, v_criterion = None, v_optimizer = None, v_epochs = None, v_epoch = None,
      v_running_loss = None, v_images = None, v_labels = None, v_logits = None, v_loss = None,
      v_img = None, v_logps = None, v_ps = None\<rparr>"

definition loaded_kernel :: "nat \<Rightarrow> (int, int, nat, unit) notebook" where
  "loaded_kernel seed = fst (data_cell toy_torch (fresh_kernel seed))"


section \<open>Notions used in the proofs\<close>

subsection \<open>Parts of the cells\<close>

text \<open>The statements of the training cell before its loop, those of the first forward-pass
  cell before it takes a batch, and those of a pass before the optimizer's step.\<close>

definition training_setup :: "('t, 'f, 'r, 'x) torch \<Rightarrow> ('t, 'f, 'r, 'x) stmt list" where
  "training_setup L =
     [new_model L log_softmax_layers, new_criterion NLLLoss, new_optimizer L (1 / 1000),
      set_epochs 10]"


definition before_step :: "('t, 'f, 'r, 'x) torch \<Rightarrow> 't \<times> 't \<Rightarrow> ('t, 'f, 'r, 'x) stmt list" where
  "before_step L b =
     [bind_batch b, flatten_images L, zero_grad L, forward_pass L, compute_loss L,
      backward_pass L]"

text \<open>The layers the two cells build when the next free address is \<open>a\<close>.\<close>

definition trained_layers :: "addr \<Rightarrow> layer list" where
  "trained_layers a =
     [Linear 784 128 a (a + 1), ReLU, Linear 128 64 (a + 2) (a + 3), ReLU,
      Linear 64 10 (a + 4) (a + 5), LogSoftmax 1]"



definition phase_order :: "call_kind list" where
  "phase_order = [KZeroGrad, KForward, KCriterion, KBackward, KStep]"


subsection \<open>Relations between the states before and after a statement\<close>


text \<open>Nothing but reading calls happened: heap, grad mode, model and optimizer are as before.\<close>

definition reads_only :: "('t, 'f, 'r, 'x) notebook \<Rightarrow> ('t, 'f, 'r, 'x) notebook \<Rightarrow> bool" where
  "reads_only s s' \<longleftrightarrow>
     heap s' = heap s \<and> grad_enabled s' = grad_enabled s \<and> v_model s' = v_model s
     \<and> v_optimizer s' = v_optimizer s
     \<and> (\<exists>es. calls s' = calls s @ es
           \<and> list_all (reading_event (map_option module_id (v_model s))) es)"

text \<open>The variables \<^verbatim>\<open>model\<close> and \<^verbatim>\<open>optimizer\<close> and the grad mode are as before, nothing
  was constructed, and every forward pass was on the model.\<close>

definition keeps_model :: "('t, 'f, 'r, 'x) notebook \<Rightarrow> ('t, 'f, 'r, 'x) notebook \<Rightarrow> bool" where
  "keeps_model s s' \<longleftrightarrow>
     v_model s' = v_model s \<and> v_optimizer s' = v_optimizer s \<and> grad_enabled s' = grad_enabled s
     \<and> (\<exists>es. calls s' = calls s @ es
           \<and> list_all (uses_model (map_option module_id (v_model s))) es)"

definition no_step :: "('t, 'f, 'r, 'x) notebook \<Rightarrow> ('t, 'f, 'r, 'x) notebook \<Rightarrow> bool" where
  "no_step s s' \<longleftrightarrow> (\<exists>es. calls s' = calls s @ es \<and> count_steps es = 0)"

text \<open>The monitor accepts the new events, whatever its state before them.\<close>

definition monitored :: "('t, 'f, 'r, 'x) notebook \<Rightarrow> ('t, 'f, 'r, 'x) notebook \<Rightarrow> bool" where
  "monitored s s' \<longleftrightarrow>
     (\<exists>es. calls s' = calls s @ es \<and> (\<forall>st. \<exists>st'. grad_monitor st es = Some st'))"

text \<open>The optimizer holds exactly the parameters of the model, each once, and grad mode is
  on.\<close>

definition trains :: "addr list \<Rightarrow> ('t, 'f, 'r, 'x) notebook \<Rightarrow> bool" where
  "trains ps s \<longleftrightarrow>
     (\<exists>m opt. v_model s = Some m \<and> v_optimizer s = Some opt \<and> opt_params opt = ps
        \<and> parameters m = ps \<and> distinct ps \<and> grad_enabled s)"

definition steps_fresh ::
  "addr list \<Rightarrow> ('t, 'f, 'r, 'x) notebook \<Rightarrow> ('t, 'f, 'r, 'x) notebook \<Rightarrow> bool" where
  "steps_fresh ps s s' \<longleftrightarrow> (trains ps s \<longrightarrow> trains ps s' \<and> monitored s s')"

subsection \<open>What is assumed of the framework's gradients\<close>

text \<open>Adding a gradient to a zeroed tensor gives the gradient, and autograd returns one
  gradient for each leaf it is asked about.\<close>

definition gradient_laws :: "('t, 'f, 'r, 'x) torch \<Rightarrow> bool" where
  "gradient_laws L \<longleftrightarrow>
     (\<forall>h g. tadd L (zeros_like L h) g = g)
     \<and> (\<forall>t as gs. autograd L t as = Inr gs \<longrightarrow> length gs = length as)"

section \<open>Lemmas\<close>

subsection \<open>Sequencing\<close>

lemma run_Cons_None:
  "run (c # cs) s = (s', None) \<longleftrightarrow> (\<exists>s1. c s = (s1, None) \<and> run cs s1 = (s', None))"
  by (cases "c s") (auto split: option.splits)

lemma run_Nil_None: "run [] s = (s', None) \<longleftrightarrow> s' = s"
  by auto

lemma run_Cons_cases:
  assumes "run (c # cs) s = (s', r)"
  obtains (stop) e where "c s = (s', Some e)" "r = Some e"
        | (go) s1 where "c s = (s1, None)" "run cs s1 = (s', r)"
  using assms by (cases "c s") (auto split: option.splits)

lemma for_each_Cons_cases:
  assumes "for_each (x # xs) body s = (s', r)"
  obtains (stop) e where "body x s = (s', Some e)" "r = Some e"
        | (go) s1 where "body x s = (s1, None)" "for_each xs body s1 = (s', r)"
  using assms by (cases "body x s") (auto split: option.splits)

lemma run_rel:
  assumes run: "run cs s = (s', r)"
    and refl: "\<And>s. R s s"
    and trans: "\<And>a b c. R a b \<Longrightarrow> R b c \<Longrightarrow> R a c"
    and step: "\<And>c s s' r. c \<in> set cs \<Longrightarrow> c s = (s', r) \<Longrightarrow> R s s'"
  shows "R s s'"
  using run step
proof (induction cs arbitrary: s)
  case Nil
  then show ?case using refl by simp
next
  case (Cons c cs)
  from Cons.prems(1) show ?case
  proof (cases rule: run_Cons_cases)
    case (stop e)
    then show ?thesis using Cons.prems(2)[of c s s' "Some e"] by simp
  next
    case (go s1)
    have "R s s1" using Cons.prems(2)[of c s s1 None] go by simp
    moreover have "R s1 s'"
      using go(2) by (rule Cons.IH) (use Cons.prems(2) in \<open>meson list.set_intros(2)\<close>)
    ultimately show ?thesis using trans by blast
  qed
qed

lemma for_each_rel:
  assumes run: "for_each xs body s = (s', r)"
    and refl: "\<And>s. R s s"
    and trans: "\<And>a b c. R a b \<Longrightarrow> R b c \<Longrightarrow> R a c"
    and step: "\<And>x s s' r. body x s = (s', r) \<Longrightarrow> R s s'"
  shows "R s s'"
  using run
proof (induction xs arbitrary: s)
  case Nil
  then show ?case using refl by simp
next
  case (Cons x xs)
  from Cons.prems show ?case
  proof (cases rule: for_each_Cons_cases)
    case (stop e)
    then show ?thesis using step by blast
  next
    case (go s1)
    have "R s s1" using step go(1) by blast
    moreover have "R s1 s'" using go(2) by (rule Cons.IH)
    ultimately show ?thesis using trans by blast
  qed
qed

lemma run_all:
  assumes run: "run cs s = (s', r)"
    and refl: "\<And>s. R s s"
    and trans: "\<And>a b c. R a b \<Longrightarrow> R b c \<Longrightarrow> R a c"
    and step: "list_all (\<lambda>c. \<forall>s s' r. c s = (s', r) \<longrightarrow> R s s') cs"
  shows "R s s'"
proof (rule run_rel[where R=R, OF run refl trans])
  fix c s s' r assume "c \<in> set cs" "c s = (s', r)"
  then show "R s s'" using step by (auto simp: list_all_iff)
qed

lemma run_append:
  "run (cs @ ds) s = (case run cs s of (s1, None) \<Rightarrow> run ds s1 | (s1, Some e) \<Rightarrow> (s1, Some e))"
  by (induction cs arbitrary: s) (auto split: prod.splits option.splits)

lemma run_single: "run [c] s = c s"
  by (cases "c s") (auto split: option.splits)

subsection \<open>Exceptions end the cell\<close>












lemma for_batches_cases:
  assumes "for_batches L body s = (s', r)"
  obtains (unbound) "v_trainloader s = None"
      "s' = s\<lparr>calls := calls s @ [Raised ''trainloader'' (NameError ''trainloader'')]\<rparr>"
      "r = Some (NameError ''trainloader'')"
    | (failed) ld x where "v_trainloader s = Some ld" "loader_iter L ld (rng s) = Inl x"
      "s' = s\<lparr>calls := calls s @ [Raised ''iter(trainloader)'' (LibraryError x)]\<rparr>"
      "r = Some (LibraryError x)"
    | (loop) ld bs g where "v_trainloader s = Some ld" "loader_iter L ld (rng s) = Inr (bs, g)"
      "for_each bs body (did LoaderIter (s\<lparr>rng := g\<rparr>)) = (s', r)"
  using assms
  by (auto simp: for_batches_def raise_def split: option.splits sum.splits prod.splits)







subsection \<open>Statements that keep the model\<close>

lemma reads_only_refl: "reads_only s s"
  by (simp add: reads_only_def)

lemma reads_only_trans: "reads_only a b \<Longrightarrow> reads_only b c \<Longrightarrow> reads_only a c"
  unfolding reads_only_def by (elim conjE exE) simp

lemma stmt_reads_only:
  "next_batch L s = (s', r) \<Longrightarrow> reads_only s s'"
  "take_first_image L s = (s', r) \<Longrightarrow> reads_only s s'"
  "with_no_grad (predict L) s = (s', r) \<Longrightarrow> reads_only s s'"
  "exp_logps L s = (s', r) \<Longrightarrow> reads_only s s'"
  "show_prediction L s = (s', r) \<Longrightarrow> reads_only s s'"
  by (auto simp: reads_only_def next_batch_def take_first_image_def with_no_grad_def predict_def
      call_module_def exp_logps_def show_prediction_def raise_def did_def
      split: sum.splits list.splits prod.splits option.splits)

lemma prediction_cell_reads_only:
  assumes "prediction_cell L s = (s', r)"
  shows "reads_only s s'"
proof (rule run_all[where R=reads_only, OF assms[unfolded prediction_cell_def]])
  show "\<And>s. reads_only s s" by (rule reads_only_refl)
  show "\<And>a b c. reads_only a b \<Longrightarrow> reads_only b c \<Longrightarrow> reads_only a c" by (rule reads_only_trans)
  show "list_all (\<lambda>c. \<forall>s s' r. c s = (s', r) \<longrightarrow> reads_only s s')
      [next_batch L, take_first_image L, with_no_grad (predict L), exp_logps L, show_prediction L]"
    by (simp only: list.pred_inject)
       (intro conjI allI impI TrueI; erule stmt_reads_only)
qed

lemma keeps_model_refl: "keeps_model s s"
  by (simp add: keeps_model_def)

lemma keeps_model_trans: "keeps_model a b \<Longrightarrow> keeps_model b c \<Longrightarrow> keeps_model a c"
  unfolding keeps_model_def by (elim conjE exE) simp

lemma stmt_keeps_model:
  "bind_epoch e s = (s', r) \<Longrightarrow> keeps_model s s'"
  "reset_running_loss s = (s', r) \<Longrightarrow> keeps_model s s'"
  "bind_batch b s = (s', r) \<Longrightarrow> keeps_model s s'"
  "flatten_images L s = (s', r) \<Longrightarrow> keeps_model s s'"
  "zero_grad L s = (s', r) \<Longrightarrow> keeps_model s s'"
  "forward_pass L s = (s', r) \<Longrightarrow> keeps_model s s'"
  "compute_loss L s = (s', r) \<Longrightarrow> keeps_model s s'"
  "backward_pass L s = (s', r) \<Longrightarrow> keeps_model s s'"
  "optimizer_step L s = (s', r) \<Longrightarrow> keeps_model s s'"
  "add_running_loss L s = (s', r) \<Longrightarrow> keeps_model s s'"
  "print_training_loss L s = (s', r) \<Longrightarrow> keeps_model s s'"
  by (auto simp: keeps_model_def bind_epoch_def reset_running_loss_def bind_batch_def
      flatten_images_def zero_grad_def forward_pass_def call_module_def compute_loss_def
      backward_pass_def optimizer_step_def add_running_loss_def print_training_loss_def
      raise_def did_def
      split: sum.splits list.splits prod.splits option.splits)

lemma training_pass_keeps_model:
  assumes "training_pass L b s = (s', r)"
  shows "keeps_model s s'"
proof (rule run_all[where R=keeps_model, OF assms[unfolded training_pass_def]])
  show "\<And>s. keeps_model s s" by (rule keeps_model_refl)
  show "\<And>a b c. keeps_model a b \<Longrightarrow> keeps_model b c \<Longrightarrow> keeps_model a c" by (rule keeps_model_trans)
  show "list_all (\<lambda>c. \<forall>s s' r. c s = (s', r) \<longrightarrow> keeps_model s s')
      [bind_batch b, flatten_images L, zero_grad L, forward_pass L, compute_loss L,
       backward_pass L, optimizer_step L, add_running_loss L]"
    by (simp only: list.pred_inject)
       (intro conjI allI impI TrueI; erule stmt_keeps_model)
qed




subsection \<open>The set-up of the training cell\<close>

lemma training_setup_facts:
  assumes "run (training_setup L) s = (s1, r)"
  shows "r = None"
    and "v_model s1 = Some (Sequential (next_addr s + 6) (trained_layers (next_addr s)))"
    and "v_optimizer s1 =
         Some \<lparr>opt_params = [next_addr s, next_addr s + 1, next_addr s + 2, next_addr s + 3,
                             next_addr s + 4, next_addr s + 5],
               opt_lr = 1 / 1000\<rparr>"
    and "v_criterion s1 = Some NLLLoss"
    and "v_epochs s1 = Some 10"
    and "grad_enabled s1 = grad_enabled s"
    and "stdout s1 = stdout s"
    and "calls s1 = calls s @
         [Did (NewLinear 784 128 (next_addr s) (next_addr s + 1)),
          Did (NewLinear 128 64 (next_addr s + 2) (next_addr s + 3)),
          Did (NewLinear 64 10 (next_addr s + 4) (next_addr s + 5)),
          Did (NewSequential (next_addr s + 6)),
          Did (NewCriterion NLLLoss),
          Did (NewSGD [next_addr s, next_addr s + 1, next_addr s + 2, next_addr s + 3,
                       next_addr s + 4, next_addr s + 5] (1 / 1000))]"
    and "v_trainloader s1 = v_trainloader s"
  using assms
  by (auto simp: training_setup_def new_model_def log_softmax_layers_def new_criterion_def
      new_optimizer_def set_epochs_def did_def parameters_def trained_layers_def raise_def
      split: prod.splits)

lemma training_cell_cases:
  assumes "training_cell L s = (s', r)"
  obtains s1 where "run (training_setup L) s = (s1, None)"
    and "for_epochs (train_epoch L) s1 = (s', r)"
proof -
  obtain s1 r1 where su: "run (training_setup L) s = (s1, r1)" by (metis surj_pair)
  then have r1: "r1 = None" by (rule training_setup_facts(1))
  have "training_cell L s = run (training_setup L @ [for_epochs (train_epoch L)]) s"
    by (simp add: training_cell_def training_setup_def)
  then have "for_epochs (train_epoch L) s1 = (s', r)"
    using assms su r1 by (simp add: run_append run_single del: run.simps)
  then show ?thesis using that su r1 by blast
qed

lemma parameters_trained_layers:
  "parameters (Sequential mid (trained_layers a)) = [a, a + 1, a + 2, a + 3, a + 4, a + 5]"
  by (simp add: parameters_def trained_layers_def)


subsection \<open>Statements that succeed\<close>

lemma pdata_zero_grads [simp]: "pdata (zero_grads L as h a) = pdata (h a)"
  by (induction as arbitrary: h) auto

lemma bind_batch_ok:
  "bind_batch b s = (s', r) \<longleftrightarrow>
     r = None \<and> s' = s\<lparr>v_images := Some \<lparr>tval = fst b, leaves = []\<rparr>,
                        v_labels := Some \<lparr>tval = snd b, leaves = []\<rparr>\<rparr>"
  by (auto simp: bind_batch_def)

lemma flatten_images_ok:
  "flatten_images L s = (s', None) \<longleftrightarrow>
     (\<exists>im n rest t. v_images s = Some im \<and> tshape L (tval im) = n # rest
        \<and> tview L (tval im) [int n, - 1] = Inr t
        \<and> s' = s\<lparr>calls := calls s @ [Did (View [int n, - 1])],
                  v_images := Some \<lparr>tval = t, leaves = track s (leaves im)\<rparr>\<rparr>)"
  by (auto simp: flatten_images_def raise_def did_def split: option.splits list.splits sum.splits)

lemma zero_grad_ok:
  "zero_grad L s = (s', None) \<longleftrightarrow>
     (\<exists>opt. v_optimizer s = Some opt
        \<and> s' = s\<lparr>heap := zero_grads L (opt_params opt) (heap s), calls := calls s @ [Did ZeroGrad]\<rparr>)"
  by (auto simp: zero_grad_def raise_def did_def split: option.splits)

lemma forward_pass_ok:
  "forward_pass L s = (s', None) \<longleftrightarrow>
     (\<exists>m im t. v_model s = Some m \<and> v_images s = Some im
        \<and> forward L (layers_of m) (map (\<lambda>a. pdata (heap s a)) (parameters m)) (tval im) = Inr t
        \<and> s' = s\<lparr>calls := calls s @ [Did (Forward (module_id m) (grad_enabled s))],
                  v_logits := Some \<lparr>tval = t, leaves = track s (parameters m @ leaves im)\<rparr>\<rparr>)"
  by (auto simp: forward_pass_def call_module_def raise_def did_def split: option.splits sum.splits)

lemma compute_loss_ok:
  "compute_loss L s = (s', None) \<longleftrightarrow>
     (\<exists>c lg lb t. v_criterion s = Some c \<and> v_logits s = Some lg \<and> v_labels s = Some lb
        \<and> criterion_apply L c (tval lg) (tval lb) = Inr t
        \<and> s' = s\<lparr>calls := calls s @ [Did (Criterion c)],
                  v_loss := Some \<lparr>tval = t, leaves = track s (leaves lg @ leaves lb)\<rparr>\<rparr>)"
  by (auto simp: compute_loss_def raise_def did_def split: option.splits sum.splits)

lemma backward_pass_ok:
  "backward_pass L s = (s', None) \<longleftrightarrow>
     (\<exists>l gs. v_loss s = Some l \<and> autograd L (tval l) (leaves l) = Inr gs
        \<and> s' = s\<lparr>heap := accumulate L (zip (leaves l) gs) (heap s),
                  calls := calls s @ [Did (Backward gs)]\<rparr>)"
  by (auto simp: backward_pass_def raise_def did_def split: option.splits sum.splits)

lemma optimizer_step_ok:
  "optimizer_step L s = (s', None) \<longleftrightarrow>
     (\<exists>opt. v_optimizer s = Some opt
        \<and> s' = s\<lparr>heap := sgd_step L (opt_lr opt) (opt_params opt) (heap s),
                  calls := calls s @ [Did (Step (map (\<lambda>a. pgrad (heap s a)) (opt_params opt)))]\<rparr>)"
  by (auto simp: optimizer_step_def raise_def did_def split: option.splits)

lemma add_running_loss_ok:
  "add_running_loss L s = (s', None) \<longleftrightarrow>
     (\<exists>acc l x. v_running_loss s = Some acc \<and> v_loss s = Some l \<and> item L (tval l) = Inr x
        \<and> s' = s\<lparr>calls := calls s @ [Did (Item x)],
                  v_running_loss := Some (py_add_float L acc x)\<rparr>)"
  by (auto simp: add_running_loss_def raise_def did_def split: option.splits sum.splits)

lemmas pass_ok = bind_batch_ok flatten_images_ok zero_grad_ok forward_pass_ok compute_loss_ok
  backward_pass_ok optimizer_step_ok add_running_loss_ok

lemma track_simps [simp]:
  "track (s\<lparr>calls := c\<rparr>) ls = track s ls"
  "track (s\<lparr>heap := h\<rparr>) ls = track s ls"
  "track (s\<lparr>v_images := a\<rparr>) ls = track s ls"
  "track (s\<lparr>v_labels := a\<rparr>) ls = track s ls"
  "track (s\<lparr>v_logits := a\<rparr>) ls = track s ls"
  "track (s\<lparr>v_loss := a\<rparr>) ls = track s ls"
  "track (s\<lparr>v_running_loss := f\<rparr>) ls = track s ls"
  "track s [] = []"
  "track s (track s ls) = track s ls"
  by (simp_all add: track_def)

lemma training_pass_ok:
  assumes "training_pass L b s = (s', None)"
  shows "\<exists>opt m c acc n rest x lg l gs v.
      v_optimizer s = Some opt \<and> v_model s = Some m \<and> v_criterion s = Some c
    \<and> v_running_loss s = Some acc
    \<and> tshape L (fst b) = n # rest \<and> tview L (fst b) [int n, - 1] = Inr x
    \<and> forward L (layers_of m) (map (\<lambda>a. pdata (heap s a)) (parameters m)) x = Inr lg
    \<and> criterion_apply L c lg (snd b) = Inr l
    \<and> autograd L l (track s (parameters m)) = Inr gs
    \<and> item L l = Inr v
    \<and> s' = s\<lparr>heap := sgd_step L (opt_lr opt) (opt_params opt)
                    (accumulate L (zip (track s (parameters m)) gs)
                       (zero_grads L (opt_params opt) (heap s))),
              calls := calls s @ [Did (View [int n, - 1]), Did ZeroGrad,
                         Did (Forward (module_id m) (grad_enabled s)), Did (Criterion c),
                         Did (Backward gs),
                         Did (Step (map (\<lambda>a. pgrad (accumulate L (zip (track s (parameters m)) gs)
                                      (zero_grads L (opt_params opt) (heap s)) a)) (opt_params opt))),
                         Did (Item v)],
              v_images := Some \<lparr>tval = x, leaves = []\<rparr>,
              v_labels := Some \<lparr>tval = snd b, leaves = []\<rparr>,
              v_logits := Some \<lparr>tval = lg, leaves = track s (parameters m)\<rparr>,
              v_loss := Some \<lparr>tval = l, leaves = track s (parameters m)\<rparr>,
              v_running_loss := Some (py_add_float L acc v)\<rparr>"
  using assms
  unfolding training_pass_def run_Cons_None run_Nil_None pass_ok
  by clarsimp



lemma track_rng [simp]: "track (s\<lparr>rng := g\<rparr>) ls = track s ls"
  by (simp add: track_def)

subsection \<open>The log of a successful run\<close>

lemma kinds_append [simp]: "kinds (es @ es') = kinds es @ kinds es'"
  by (induction es rule: kinds.induct) auto

lemma split_epochs_append_items:
  "snd (split_epochs es) = [] \<Longrightarrow>
   split_epochs (es @ es') = (fst (split_epochs es) @ fst (split_epochs es'), snd (split_epochs es'))"
  by (induction es rule: split_epochs.induct) (auto split: prod.splits)

lemma split_epochs_append_epochs:
  "fst (split_epochs es') = [] \<Longrightarrow>
   split_epochs (es @ es') = (fst (split_epochs es), snd (split_epochs es) @ snd (split_epochs es'))"
  by (induction es rule: split_epochs.induct) (auto split: prod.splits simp: prod_eq_iff)

lemma training_pass_summary:
  assumes "training_pass L b s = (s', None)"
  shows "\<exists>es acc v. calls s' = calls s @ es \<and> kinds es = pass_kinds
      \<and> split_epochs es = ([v], [])
      \<and> v_running_loss s = Some acc
      \<and> v_running_loss s' = Some (PyFloat (fadd L (to_float L acc) v))
      \<and> stdout s' = stdout s \<and> v_epochs s' = v_epochs s
      \<and> v_trainloader s' = v_trainloader s"
proof -
  from training_pass_ok[OF assms] obtain opt m c acc n rest x lg l gs v hp st where
    acc: "v_running_loss s = Some acc"
    and s': "s' = s\<lparr>heap := hp,
              calls := calls s @ [Did (View [int n, - 1]), Did ZeroGrad,
                         Did (Forward (module_id m) (grad_enabled s)), Did (Criterion c),
                         Did (Backward gs), Did (Step st), Did (Item v)],
              v_images := Some \<lparr>tval = x, leaves = []\<rparr>,
              v_labels := Some \<lparr>tval = snd b, leaves = []\<rparr>,
              v_logits := Some \<lparr>tval = lg, leaves = track s (parameters m)\<rparr>,
              v_loss := Some \<lparr>tval = l, leaves = track s (parameters m)\<rparr>,
              v_running_loss := Some (py_add_float L acc v)\<rparr>"
    by blast
  show ?thesis
    using acc unfolding s' by (simp add: pass_kinds_def py_add_float_def)
qed

lemma for_each_pass_summary:
  assumes "for_each bs (training_pass L) s = (s', None)" and "v_running_loss s = Some acc"
  shows "\<exists>es xs acc'. calls s' = calls s @ es
      \<and> kinds es = concat (replicate (length bs) pass_kinds)
      \<and> split_epochs es = (xs, [])
      \<and> v_running_loss s' = Some acc'
      \<and> to_float L acc' = foldl (fadd L) (to_float L acc) xs
      \<and> stdout s' = stdout s \<and> v_epochs s' = v_epochs s
      \<and> v_trainloader s' = v_trainloader s"
  using assms
proof (induction bs arbitrary: s acc)
  case Nil
  then show ?case by simp
next
  case (Cons b bs)
  from Cons.prems(1) obtain s1 where
    p: "training_pass L b s = (s1, None)" and rest: "for_each bs (training_pass L) s1 = (s', None)"
    by (cases rule: for_each_Cons_cases) auto
  from training_pass_summary[OF p] Cons.prems(2) obtain es1 v where
    1: "calls s1 = calls s @ es1" "kinds es1 = pass_kinds" "split_epochs es1 = ([v], [])"
      "v_running_loss s1 = Some (PyFloat (fadd L (to_float L acc) v))"
      "stdout s1 = stdout s" "v_epochs s1 = v_epochs s" "v_trainloader s1 = v_trainloader s"
    by auto
  from Cons.IH[OF rest 1(4)] obtain es2 xs acc' where
    2: "calls s' = calls s1 @ es2" "kinds es2 = concat (replicate (length bs) pass_kinds)"
      "split_epochs es2 = (xs, [])" "v_running_loss s' = Some acc'"
      "to_float L acc' = foldl (fadd L) (fadd L (to_float L acc) v) xs"
      "stdout s' = stdout s1" "v_epochs s' = v_epochs s1" "v_trainloader s' = v_trainloader s1"
    by auto
  have "split_epochs (es1 @ es2) = (v # xs, [])"
    using 1(3) 2(3) by (simp add: split_epochs_append_items)
  then show ?case using 1 2 by auto
qed

lemma for_batches_summary:
  assumes "for_batches L (training_pass L) s = (s', None)" and "v_running_loss s = Some acc"
  shows "\<exists>es xs n acc'. calls s' = calls s @ es
      \<and> kinds es = epoch_kinds n
      \<and> split_epochs es = ([], [xs])
      \<and> v_running_loss s' = Some acc'
      \<and> to_float L acc' = foldl (fadd L) (to_float L acc) xs
      \<and> stdout s' = stdout s \<and> v_epochs s' = v_epochs s
      \<and> v_trainloader s' = v_trainloader s"
  using assms(1)
proof (cases rule: for_batches_cases)
  case (loop ld bs g)
  let ?s1 = "did LoaderIter (s\<lparr>rng := g\<rparr>)"
  have acc1: "v_running_loss ?s1 = Some acc" using assms(2) by (simp add: did_def)
  from for_each_pass_summary[OF loop(3) acc1] obtain es xs acc' where
    1: "calls s' = calls ?s1 @ es" "kinds es = concat (replicate (length bs) pass_kinds)"
      "split_epochs es = (xs, [])" "v_running_loss s' = Some acc'"
      "to_float L acc' = foldl (fadd L) (to_float L acc) xs"
      "stdout s' = stdout ?s1" "v_epochs s' = v_epochs ?s1"
      "v_trainloader s' = v_trainloader ?s1"
    by auto
  have "calls s' = calls s @ (Did LoaderIter # es)" using 1(1) by (simp add: did_def)
  moreover have "kinds (Did LoaderIter # es) = epoch_kinds (length bs)"
    using 1(2) by (simp add: epoch_kinds_def)
  moreover have "split_epochs (Did LoaderIter # es) = ([], [xs])" using 1(3) by simp
  ultimately show ?thesis using 1(4,5,6,7,8) by (auto simp: did_def)
qed simp_all

lemma print_training_loss_ok:
  "print_training_loss L s = (s', None) \<longleftrightarrow>
     (\<exists>acc ld. v_running_loss s = Some acc \<and> v_trainloader s = Some ld
        \<and> loader_len L ld \<noteq> 0
        \<and> s' = s\<lparr>stdout := stdout s @
              [training_loss_line L
                 (fdiv L (to_float L acc) (float_of_int L (int (loader_len L ld))))]\<rparr>)"
  by (auto simp: print_training_loss_def py_truediv_def raise_def split: option.splits)

lemma train_epoch_summary:
  assumes "train_epoch L e s = (s', None)"
  shows "\<exists>es xs n ld. calls s' = calls s @ es
      \<and> kinds es = epoch_kinds n
      \<and> split_epochs es = ([], [xs])
      \<and> v_trainloader s = Some ld
      \<and> stdout s' = stdout s @ [training_loss_line L (mean_loss L (loader_len L ld) xs)]
      \<and> v_epochs s' = v_epochs s \<and> v_trainloader s' = v_trainloader s"
proof -
  let ?s2 = "s\<lparr>v_epoch := Some e, v_running_loss := Some (PyInt 0)\<rparr>"
  from assms obtain s3 where
    fb: "for_batches L (training_pass L) ?s2 = (s3, None)"
    and pr: "print_training_loss L s3 = (s', None)"
    unfolding train_epoch_def run_Cons_None run_Nil_None
    by (auto simp: bind_epoch_def reset_running_loss_def)
  have "v_running_loss ?s2 = Some (PyInt 0)" by simp
  from for_batches_summary[OF fb this] obtain es xs n acc' where
    1: "calls s3 = calls ?s2 @ es" "kinds es = epoch_kinds n" "split_epochs es = ([], [xs])"
      "v_running_loss s3 = Some acc'"
      "to_float L acc' = foldl (fadd L) (to_float L (PyInt 0)) xs"
      "stdout s3 = stdout ?s2" "v_epochs s3 = v_epochs ?s2"
      "v_trainloader s3 = v_trainloader ?s2"
    by auto
  from pr 1(4) obtain ld where ld: "v_trainloader s3 = Some ld"
    and s': "s' = s3\<lparr>stdout := stdout s3 @
              [training_loss_line L
                 (fdiv L (to_float L acc') (float_of_int L (int (loader_len L ld))))]\<rparr>"
    by (auto simp: print_training_loss_ok)
  have l: "v_trainloader s = Some ld" using ld 1(8) by simp
  show ?thesis
    using 1(1-7) ld l unfolding s' by (auto simp: mean_loss_def)
qed

lemma for_each_epoch_summary:
  assumes "for_each xs (train_epoch L) s = (s', None)" and "v_trainloader s = Some ld"
  shows "\<exists>es xss ns. calls s' = calls s @ es
      \<and> length ns = length xs \<and> kinds es = concat (map epoch_kinds ns)
      \<and> split_epochs es = ([], xss) \<and> length xss = length xs
      \<and> stdout s' = stdout s @
            map (\<lambda>ls. training_loss_line L (mean_loss L (loader_len L ld) ls)) xss"
  using assms
proof (induction xs arbitrary: s)
  case Nil
  then show ?case by simp
next
  case (Cons x xs)
  from Cons.prems(1) obtain s1 where
    p: "train_epoch L x s = (s1, None)" and rest: "for_each xs (train_epoch L) s1 = (s', None)"
    by (cases rule: for_each_Cons_cases) auto
  from train_epoch_summary[OF p] Cons.prems(2) obtain es1 ls n where
    1: "calls s1 = calls s @ es1" "kinds es1 = epoch_kinds n" "split_epochs es1 = ([], [ls])"
      "stdout s1 = stdout s @ [training_loss_line L (mean_loss L (loader_len L ld) ls)]"
      "v_trainloader s1 = Some ld"
    by auto
  from Cons.IH[OF rest 1(5)] obtain es2 xss ns where
    2: "calls s' = calls s1 @ es2" "length ns = length xs" "kinds es2 = concat (map epoch_kinds ns)"
      "split_epochs es2 = ([], xss)" "length xss = length xs"
      "stdout s' = stdout s1 @
         map (\<lambda>ls. training_loss_line L (mean_loss L (loader_len L ld) ls)) xss"
    by auto
  have "split_epochs (es1 @ es2) = ([], ls # xss)"
    using 1(3) 2(4) by (simp add: split_epochs_append_epochs)
  moreover have "kinds (es1 @ es2) = concat (map epoch_kinds (n # ns))"
    using 1(2) 2(3) by simp
  moreover have "length (n # ns) = length (x # xs)" using 2(2) by simp
  ultimately show ?case using 1 2
    apply (intro exI[of _ "es1 @ es2"] exI[of _ "ls # xss"] exI[of _ "n # ns"])
    apply simp
    done
qed

lemma training_cell_summary:
  assumes "training_cell L s = (s', None)"
  shows "\<exists>es xss ns ld. calls s' = calls s @ es
      \<and> length ns = 10 \<and> kinds es = setup_kinds @ concat (map epoch_kinds ns)
      \<and> losses_by_epoch es = xss \<and> length xss = 10
      \<and> v_trainloader s = Some ld
      \<and> stdout s' = stdout s @
            map (\<lambda>ls. training_loss_line L (mean_loss L (loader_len L ld) ls)) xss"
proof -
  from assms obtain s1 where su: "run (training_setup L) s = (s1, None)"
    and fe: "for_epochs (train_epoch L) s1 = (s', None)"
    by (rule training_cell_cases)
  note f = training_setup_facts[OF su]
  let ?made = "[Did (NewLinear 784 128 (next_addr s) (next_addr s + 1)),
          Did (NewLinear 128 64 (next_addr s + 2) (next_addr s + 3)),
          Did (NewLinear 64 10 (next_addr s + 4) (next_addr s + 5)),
          Did (NewSequential (next_addr s + 6)),
          Did (NewCriterion NLLLoss),
          Did (NewSGD [next_addr s, next_addr s + 1, next_addr s + 2, next_addr s + 3,
                       next_addr s + 4, next_addr s + 5] (1 / 1000))] :: ('a, 'b, 'd) event list"
  have fe10: "for_each (py_range 10) (train_epoch L) s1 = (s', None)"
    using fe f(5) by (simp add: for_epochs_def)
  have len: "length (py_range 10) = 10" by (simp add: py_range_def)
  obtain ld where ld: "v_trainloader s1 = Some ld"
  proof (cases "v_trainloader s1")
    case None
    have "py_range 10 = 0 # map int [1 ..< 10]"
      by (simp add: py_range_def upt_conv_Cons)
    then obtain s2 where "train_epoch L 0 s1 = (s2, None)"
      using fe10 by (auto split: prod.splits option.splits)
    from train_epoch_summary[OF this] None show ?thesis by auto
  next
    case (Some ld)
    then show ?thesis using that by blast
  qed
  from for_each_epoch_summary[OF fe10 ld] obtain es xss ns where
    1: "calls s' = calls s1 @ es" "length ns = length (py_range 10)"
      "kinds es = concat (map epoch_kinds ns)" "split_epochs es = ([], xss)"
      "length xss = length (py_range 10)"
      "stdout s' = stdout s1 @
         map (\<lambda>ls. training_loss_line L (mean_loss L (loader_len L ld) ls)) xss"
    by auto
  have "split_epochs (?made @ es) = ([], xss)"
    using 1(4) by (simp add: split_epochs_append_epochs)
  then have "losses_by_epoch (?made @ es) = xss" by (simp add: losses_by_epoch_def)
  moreover have "kinds (?made @ es) = setup_kinds @ concat (map epoch_kinds ns)"
    using 1(3) by (simp add: setup_kinds_def)
  moreover have "calls s' = calls s @ (?made @ es)" using 1(1) f(8) by simp
  moreover have "v_trainloader s = Some ld" using ld f(9) by simp
  ultimately show ?thesis using 1(2,5,6) len f(7) by metis
qed

lemma phases_epoch: "filter is_phase (epoch_kinds n) = concat (replicate n phase_order)"
  by (induction n) (simp_all add: epoch_kinds_def pass_kinds_def phase_order_def)

lemma phases_epochs:
  "filter is_phase (concat (map epoch_kinds ns)) = concat (replicate (sum_list ns) phase_order)"
  by (induction ns) (simp_all add: phases_epoch replicate_add)

lemma phases_cell:
  "filter is_phase (setup_kinds @ concat (map epoch_kinds ns))
     = concat (replicate (sum_list ns) phase_order)"
  by (simp add: phases_epochs) (simp add: setup_kinds_def)

subsection \<open>The first forward-pass cell\<close>




subsection \<open>Gradients after a reset and one backward pass\<close>

lemma zero_grads_outside: "a \<notin> set as \<Longrightarrow> zero_grads L as h a = h a"
  by (induction as arbitrary: h) auto

lemma zero_grads_inside:
  "distinct as \<Longrightarrow> a \<in> set as \<Longrightarrow>
   pgrad (zero_grads L as h a) = map_option (zeros_like L) (pgrad (h a))"
proof (induction as arbitrary: h)
  case Nil
  then show ?case by simp
next
  case (Cons b as)
  show ?case
  proof (cases "a = b")
    case True
    then have "a \<notin> set as" using Cons.prems(1) by simp
    then show ?thesis using True by (simp add: zero_grads_outside)
  next
    case False
    then show ?thesis using Cons by simp
  qed
qed

lemma accumulate_outside: "a \<notin> fst ` set ags \<Longrightarrow> accumulate L ags h a = h a"
  by (induction ags arbitrary: h) auto

lemma accumulate_inside:
  "distinct (map fst ags) \<Longrightarrow> (a, g) \<in> set ags \<Longrightarrow>
   pgrad (accumulate L ags h a) =
     Some (case pgrad (h a) of None \<Rightarrow> g | Some old \<Rightarrow> tadd L old g)"
proof (induction ags arbitrary: h)
  case Nil
  then show ?case by simp
next
  case (Cons p ags)
  obtain b k where p: "p = (b, k)" by (cases p)
  show ?case
  proof (cases "(a, g) = p")
    case True
    then have ab: "a = b" "g = k" using p by auto
    then have "b \<notin> fst ` set ags" using Cons.prems(1) p by auto
    then show ?thesis unfolding p ab by (simp add: accumulate_outside)
  next
    case False
    then have in_rest: "(a, g) \<in> set ags" using Cons.prems(2) by simp
    then have "a \<noteq> b" using Cons.prems(1) p by (auto simp: image_iff)
    then show ?thesis using Cons.IH[OF _ in_rest] Cons.prems(1) p by simp
  qed
qed

lemma fresh_gradients:
  assumes zero: "\<And>h g. tadd L (zeros_like L h) g = g"
    and dist: "distinct ps" and len: "length gs = length ps"
  shows "map (\<lambda>a. pgrad (accumulate L (zip ps gs) (zero_grads L ps h) a)) ps = map Some gs"
proof (rule nth_equalityI)
  show "length (map (\<lambda>a. pgrad (accumulate L (zip ps gs) (zero_grads L ps h) a)) ps)
      = length (map Some gs)" using len by simp
next
  fix i assume "i < length (map (\<lambda>a. pgrad (accumulate L (zip ps gs) (zero_grads L ps h) a)) ps)"
  then have i: "i < length ps" by simp
  have d: "distinct (map fst (zip ps gs))" using dist len by (simp add: map_fst_zip)
  have m: "(ps ! i, gs ! i) \<in> set (zip ps gs)"
    using i len by (metis in_set_zip fst_conv snd_conv)
  have z: "pgrad (zero_grads L ps h (ps ! i)) = map_option (zeros_like L) (pgrad (h (ps ! i)))"
    using dist i by (simp add: zero_grads_inside)
  have "pgrad (accumulate L (zip ps gs) (zero_grads L ps h) (ps ! i)) = Some (gs ! i)"
    unfolding accumulate_inside[OF d m] z by (cases "pgrad (h (ps ! i))") (simp_all add: zero)
  then show "map (\<lambda>a. pgrad (accumulate L (zip ps gs) (zero_grads L ps h) a)) ps ! i
      = map Some gs ! i" using i len by simp
qed

subsection \<open>The monitor accepts the training cell\<close>

lemma grad_monitor_append:
  "grad_monitor st (es @ es') =
     (case grad_monitor st es of None \<Rightarrow> None | Some st1 \<Rightarrow> grad_monitor st1 es')"
  by (induction st es rule: grad_monitor.induct) (auto split: grad_state.splits)

lemma count_steps_append [simp]: "count_steps (es @ es') = count_steps es + count_steps es'"
  by (induction es rule: count_steps.induct) auto

lemma grad_monitor_no_step: "count_steps es = 0 \<Longrightarrow> \<exists>st'. grad_monitor st es = Some st'"
  by (induction st es rule: grad_monitor.induct) auto

lemma no_step_monitored: "no_step s s' \<Longrightarrow> monitored s s'"
  unfolding no_step_def monitored_def using grad_monitor_no_step by blast

lemma monitored_refl: "monitored s s"
  by (simp add: monitored_def)

lemma monitored_trans: "monitored a b \<Longrightarrow> monitored b c \<Longrightarrow> monitored a c"
proof -
  assume "monitored a b" "monitored b c"
  then obtain es1 es2 where
    1: "calls b = calls a @ es1" "\<forall>st. \<exists>st'. grad_monitor st es1 = Some st'"
    and 2: "calls c = calls b @ es2" "\<forall>st. \<exists>st'. grad_monitor st es2 = Some st'"
    unfolding monitored_def by blast
  have "\<exists>st'. grad_monitor st (es1 @ es2) = Some st'" for st
  proof -
    obtain st1 where "grad_monitor st es1 = Some st1" using 1(2) by blast
    then show ?thesis using 2(2) by (simp add: grad_monitor_append)
  qed
  then show ?thesis unfolding monitored_def using 1(1) 2(1) by (intro exI[of _ "es1 @ es2"]) simp
qed

lemma keeps_model_trains: "keeps_model s s' \<Longrightarrow> trains ps s \<Longrightarrow> trains ps s'"
  by (auto simp: keeps_model_def trains_def)

lemma steps_fresh_refl: "steps_fresh ps s s"
  by (simp add: steps_fresh_def monitored_refl)

lemma steps_fresh_trans: "steps_fresh ps a b \<Longrightarrow> steps_fresh ps b c \<Longrightarrow> steps_fresh ps a c"
  unfolding steps_fresh_def using monitored_trans by blast

lemma no_step_refl: "no_step s s"
  by (simp add: no_step_def)

lemma no_step_trans: "no_step a b \<Longrightarrow> no_step b c \<Longrightarrow> no_step a c"
  unfolding no_step_def by (elim exE conjE) simp

lemma stmt_no_step:
  "bind_epoch e s = (s', r) \<Longrightarrow> no_step s s'"
  "reset_running_loss s = (s', r) \<Longrightarrow> no_step s s'"
  "bind_batch b s = (s', r) \<Longrightarrow> no_step s s'"
  "flatten_images L s = (s', r) \<Longrightarrow> no_step s s'"
  "zero_grad L s = (s', r) \<Longrightarrow> no_step s s'"
  "forward_pass L s = (s', r) \<Longrightarrow> no_step s s'"
  "compute_loss L s = (s', r) \<Longrightarrow> no_step s s'"
  "backward_pass L s = (s', r) \<Longrightarrow> no_step s s'"
  "add_running_loss L s = (s', r) \<Longrightarrow> no_step s s'"
  "print_training_loss L s = (s', r) \<Longrightarrow> no_step s s'"
  by (auto simp: no_step_def bind_epoch_def reset_running_loss_def bind_batch_def
      flatten_images_def zero_grad_def forward_pass_def call_module_def compute_loss_def
      backward_pass_def add_running_loss_def print_training_loss_def
      raise_def did_def
      split: sum.splits list.splits prod.splits option.splits)

lemma before_step_no_step:
  assumes "run (before_step L b) s = (s', r)"
  shows "no_step s s'"
proof (rule run_all[where R=no_step, OF assms[unfolded before_step_def]])
  show "\<And>s. no_step s s" by (rule no_step_refl)
  show "\<And>a b c. no_step a b \<Longrightarrow> no_step b c \<Longrightarrow> no_step a c" by (rule no_step_trans)
  show "list_all (\<lambda>c. \<forall>s s' r. c s = (s', r) \<longrightarrow> no_step s s')
      [bind_batch b, flatten_images L, zero_grad L, forward_pass L, compute_loss L,
       backward_pass L]"
    by (simp only: list.pred_inject)
       (intro conjI allI impI TrueI; erule stmt_no_step)
qed

lemma before_step_ok:
  assumes "run (before_step L b) s = (s', None)"
  shows "\<exists>opt m c n l gs.
      v_optimizer s = Some opt \<and> v_model s = Some m
    \<and> autograd L l (track s (parameters m)) = Inr gs
    \<and> v_optimizer s' = Some opt
    \<and> heap s' = accumulate L (zip (track s (parameters m)) gs)
                   (zero_grads L (opt_params opt) (heap s))
    \<and> calls s' = calls s @ [Did (View [int n, - 1]), Did ZeroGrad,
                         Did (Forward (module_id m) (grad_enabled s)), Did (Criterion c),
                         Did (Backward gs)]"
  using assms
  unfolding before_step_def run_Cons_None run_Nil_None pass_ok
  by clarsimp blast

lemma training_pass_monitored:
  assumes laws: "gradient_laws L"
    and tr: "trains ps s"
    and run: "training_pass L b s = (s', r)"
  shows "monitored s s'"
proof -
  have zero: "\<And>h g. tadd L (zeros_like L h) g = g"
    and len: "\<And>t as gs. autograd L t as = Inr gs \<Longrightarrow> length gs = length as"
    using laws by (auto simp: gradient_laws_def)
  obtain s6 r6 where pre: "run (before_step L b) s = (s6, r6)" by (metis surj_pair)
  have split: "training_pass L b s =
      (case run (before_step L b) s of
         (s1, None) \<Rightarrow> run [optimizer_step L, add_running_loss L] s1
       | (s1, Some e) \<Rightarrow> (s1, Some e))"
    unfolding training_pass_def before_step_def
    using run_append[of "[bind_batch b, flatten_images L, zero_grad L, forward_pass L,
        compute_loss L, backward_pass L]" "[optimizer_step L, add_running_loss L]" s]
    by simp
  show ?thesis
  proof (cases r6)
    case (Some e)
    then have "s' = s6" using run split pre by simp
    then show ?thesis using before_step_no_step[OF pre] by (simp add: no_step_monitored)
  next
    case None
    from before_step_ok[OF pre[unfolded None]] obtain opt m c n l gs where
      f: "v_optimizer s = Some opt" "v_model s = Some m"
        "autograd L l (track s (parameters m)) = Inr gs"
        "v_optimizer s6 = Some opt"
        "heap s6 = accumulate L (zip (track s (parameters m)) gs)
                   (zero_grads L (opt_params opt) (heap s))"
        "calls s6 = calls s @ [Did (View [int n, - 1]), Did ZeroGrad,
                         Did (Forward (module_id m) (grad_enabled s)), Did (Criterion c),
                         Did (Backward gs)]"
      by blast
    have ps: "opt_params opt = ps" "parameters m = ps" "distinct ps" "grad_enabled s"
      using tr f(1,2) by (auto simp: trains_def)
    have tk: "track s (parameters m) = ps" using ps by (simp add: track_def)
    have lgs: "length gs = length ps" using len[OF f(3)] tk by simp
    let ?hs = "map (\<lambda>a. pgrad (heap s6 a)) (opt_params opt)"
    have hs: "?hs = map Some gs"
      unfolding f(5) tk ps(1) by (rule fresh_gradients[OF zero ps(3) lgs])
    let ?s7 = "s6\<lparr>heap := sgd_step L (opt_lr opt) (opt_params opt) (heap s6),
                  calls := calls s6 @ [Did (Step ?hs)]\<rparr>"
    have st: "optimizer_step L s6 = (?s7, None)"
      using f(4) by (simp add: optimizer_step_def did_def)
    have "run [optimizer_step L, add_running_loss L] s6 = (s', r)"
      using run split pre None by simp
    then have add: "add_running_loss L ?s7 = (s', r)"
      by (rule run_Cons_cases) (use st in \<open>auto simp: run_single simp del: run.simps\<close>)
    from stmt_no_step(9)[OF add] obtain tail where
      tail: "calls s' = calls ?s7 @ tail" "count_steps tail = 0"
      unfolding no_step_def by blast
    let ?blk = "[Did (View [int n, - 1]), Did ZeroGrad,
                 Did (Forward (module_id m) (grad_enabled s)), Did (Criterion c),
                 Did (Backward gs), Did (Step (map Some gs))] :: ('a, 'b, 'd) event list"
    have calls: "calls s' = calls s @ (?blk @ tail)"
      using tail(1) f(6) hs by simp
    have "\<exists>st'. grad_monitor st (?blk @ tail) = Some st'" for st :: "'a grad_state"
      using grad_monitor_no_step[OF tail(2), of Stale] by simp
    then show ?thesis unfolding monitored_def using calls by blast
  qed
qed

lemma training_pass_steps_fresh:
  assumes laws: "gradient_laws L"
    and run: "training_pass L b s = (s', r)"
  shows "steps_fresh ps s s'"
  unfolding steps_fresh_def
  using training_pass_monitored[OF laws _ run] keeps_model_trains[OF training_pass_keeps_model[OF run]]
  by blast

lemma keeps_no_step_steps_fresh: "keeps_model s s' \<Longrightarrow> no_step s s' \<Longrightarrow> steps_fresh ps s s'"
  unfolding steps_fresh_def using keeps_model_trains no_step_monitored by blast

lemma for_batches_steps_fresh:
  assumes laws: "gradient_laws L"
    and run: "for_batches L (training_pass L) s = (s', r)"
  shows "steps_fresh ps s s'"
  using run
proof (cases rule: for_batches_cases)
  case unbound
  then have "keeps_model s s'" "no_step s s'"
    by (simp_all add: keeps_model_def no_step_def)
  then show ?thesis by (rule keeps_no_step_steps_fresh)
next
  case (failed ld x)
  then have "keeps_model s s'" "no_step s s'"
    by (simp_all add: keeps_model_def no_step_def)
  then show ?thesis by (rule keeps_no_step_steps_fresh)
next
  case (loop ld bs g)
  let ?s1 = "did LoaderIter (s\<lparr>rng := g\<rparr>)"
  have "keeps_model s ?s1" "no_step s ?s1"
    by (simp_all add: keeps_model_def no_step_def did_def)
  then have 1: "steps_fresh ps s ?s1" by (rule keeps_no_step_steps_fresh)
  have "steps_fresh ps ?s1 s'"
    by (rule for_each_rel[where R="steps_fresh ps", OF loop(3)])
       (rule steps_fresh_refl, erule (1) steps_fresh_trans,
        erule training_pass_steps_fresh[OF laws])
  with 1 show ?thesis by (rule steps_fresh_trans)
qed

lemma train_epoch_steps_fresh:
  assumes laws: "gradient_laws L"
    and run: "train_epoch L e s = (s', r)"
  shows "steps_fresh ps s s'"
proof (rule run_all[where R="steps_fresh ps", OF run[unfolded train_epoch_def]])
  show "\<And>s. steps_fresh ps s s" by (rule steps_fresh_refl)
  show "\<And>a b c. steps_fresh ps a b \<Longrightarrow> steps_fresh ps b c \<Longrightarrow> steps_fresh ps a c"
    by (rule steps_fresh_trans)
  show "list_all (\<lambda>c. \<forall>s s' r. c s = (s', r) \<longrightarrow> steps_fresh ps s s')
      [bind_epoch e, reset_running_loss, for_batches L (training_pass L), print_training_loss L]"
    by (simp only: list.pred_inject)
       (intro conjI allI impI TrueI;
        (erule for_batches_steps_fresh[OF laws]
         | (rule keeps_no_step_steps_fresh, erule stmt_keeps_model, erule stmt_no_step)))
qed

lemma for_epochs_steps_fresh:
  assumes laws: "gradient_laws L"
    and run: "for_epochs (train_epoch L) s = (s', r)"
  shows "steps_fresh ps s s'"
proof (cases "v_epochs s")
  case None
  then have "s' = fst (raise ''epochs'' (NameError ''epochs'') s)"
    using run by (simp add: for_epochs_def)
  then have "keeps_model s s'" "no_step s s'"
    by (simp_all add: keeps_model_def no_step_def raise_def)
  then show ?thesis by (rule keeps_no_step_steps_fresh)
next
  case (Some n)
  then have fe: "for_each (py_range n) (train_epoch L) s = (s', r)"
    using run by (simp add: for_epochs_def)
  show ?thesis
    by (rule for_each_rel[where R="steps_fresh ps", OF fe])
       (rule steps_fresh_refl, erule (1) steps_fresh_trans,
        erule train_epoch_steps_fresh[OF laws])
qed

lemma training_cell_monitored:
  assumes laws: "gradient_laws L"
    and grad: "grad_enabled s"
    and run: "training_cell L s = (s', r)"
  shows "\<exists>es st'. calls s' = calls s @ es \<and> grad_monitor st es = Some st'"
proof -
  from run obtain s1 where su: "run (training_setup L) s = (s1, None)"
    and fe: "for_epochs (train_epoch L) s1 = (s', r)"
    by (rule training_cell_cases)
  note f = training_setup_facts[OF su]
  let ?ps = "[next_addr s, next_addr s + 1, next_addr s + 2, next_addr s + 3,
              next_addr s + 4, next_addr s + 5]"
  have "trains ?ps s1"
    unfolding trains_def using f(2,3,6) grad by (simp add: parameters_trained_layers)
  with for_epochs_steps_fresh[OF laws fe, of ?ps] have "monitored s1 s'"
    by (simp add: steps_fresh_def)
  moreover have "monitored s s1"
    by (rule no_step_monitored) (simp add: no_step_def f(8))
  ultimately have "monitored s s'" by (rule monitored_trans[rotated])
  then show ?thesis unfolding monitored_def by blast
qed

subsection \<open>Runs of the small instance\<close>

lemma toy_training_succeeds: "snd (training_cell toy_torch (loaded_kernel 0)) = None"
  by code_simp

lemma toy_first_phases:
  "take 5 (phases (calls (fst (training_cell toy_torch (loaded_kernel 0)))))
     = [KZeroGrad, KForward, KCriterion, KBackward, KStep]"
  by code_simp

lemma toy_steps: "count_steps (calls (fst (training_cell toy_torch (loaded_kernel 0)))) = 20"
  by code_simp

lemma toy_gradient_laws: "gradient_laws toy_torch"
  by (simp add: gradient_laws_def toy_torch_def)


lemma toy_notebook_succeeds: "snd (run (code_cells toy_torch) (fresh_kernel 0)) = None"
  by code_simp

lemma loaded_kernel_calls:
  "calls (loaded_kernel seed) = [Did LoadDataset, Did (NewLoader 64 True)]"
  "next_addr (loaded_kernel seed) = 0"
  "grad_enabled (loaded_kernel seed)"
  "loaded_kernel 1 = (loaded_kernel 0)\<lparr>rng := 1\<rparr>"
  "v_trainloader (loaded_kernel seed) = Some (DataLoader 64 True)"
  by (simp_all add: loaded_kernel_def data_cell_def load_trainset_def new_loader_def
      toy_torch_def fresh_kernel_def did_def)




lemma toy_prediction_succeeds:
  "snd (prediction_cell toy_torch (fst (new_model toy_torch log_softmax_layers (loaded_kernel 0))))
     = None"
  by code_simp

lemma toy_unshuffled_differs:
  "stdout (fst (training_cell toy_unshuffled (loaded_kernel 0)))
     \<noteq> stdout (fst (training_cell toy_unshuffled (loaded_kernel 1)))"
  by code_simp

lemma toy_fixed_init_differs:
  "stdout (fst (training_cell toy_fixed_init (loaded_kernel 0)))
     \<noteq> stdout (fst (training_cell toy_fixed_init (loaded_kernel 1)))"
  by code_simp

section \<open>The claims\<close>

lemma succeeded: "snd p = None \<Longrightarrow> p = (fst p, None)"
  by (cases p) simp

text \<open>
  C1 (as amended). Every successful run of the training cell makes, after the six
  constructor calls of its set-up, ten loops over the loader, and every iteration of such a
  loop makes exactly the calls view, zero_grad, forward, criterion, backward, step, item,
  in this order: the gradient reset comes first, then the forward pass, the loss, the
  backward pass and the parameter step. All of them are calls into the framework.
\<close>

theorem training_loop_call_order:
  assumes "training_cell L s = (s', None)"
  shows "\<exists>es ns. calls s' = calls s @ es \<and> length ns = 10
      \<and> kinds es =
          [KNewLinear, KNewLinear, KNewLinear, KNewSequential, KNewCriterion, KNewSGD]
          @ concat (map (\<lambda>n. KLoaderIter
                # concat (replicate n
                    [KView, KZeroGrad, KForward, KCriterion, KBackward, KStep, KItem])) ns)
      \<and> phases es
          = concat (replicate (sum_list ns) [KZeroGrad, KForward, KCriterion, KBackward, KStep])"
proof -
  from training_cell_summary[OF assms] obtain es ns where
    1: "calls s' = calls s @ es" "length ns = 10"
      "kinds es = setup_kinds @ concat (map epoch_kinds ns)"
    by blast
  have "phases es = concat (replicate (sum_list ns) phase_order)"
    unfolding phases_def 1(3) by (rule phases_cell)
  then show ?thesis
    using 1 by (auto simp: setup_kinds_def epoch_kinds_def[abs_def] pass_kinds_def phase_order_def)
qed

theorem training_loop_call_order_witness:
  "snd (training_cell toy_torch (loaded_kernel 0)) = None
   \<and> (\<exists>es ns. calls (fst (training_cell toy_torch (loaded_kernel 0))) = calls (loaded_kernel 0) @ es
       \<and> length ns = 10
       \<and> kinds es =
          [KNewLinear, KNewLinear, KNewLinear, KNewSequential, KNewCriterion, KNewSGD]
          @ concat (map (\<lambda>n. KLoaderIter
                # concat (replicate n
                    [KView, KZeroGrad, KForward, KCriterion, KBackward, KStep, KItem])) ns)
       \<and> phases es
          = concat (replicate (sum_list ns) [KZeroGrad, KForward, KCriterion, KBackward, KStep]))"
  using training_loop_call_order[OF succeeded[OF toy_training_succeeds]] toy_training_succeeds
  by blast

text \<open>C1 as stated fails: in the first iteration of the loop, on the small instance, the
  five phases come in the order reset, forward, loss, backward, step, which is not the
  order forward, loss, backward, step, reset.\<close>

theorem gradient_reset_comes_first:
  "snd (training_cell toy_torch (loaded_kernel 0)) = None
   \<and> take 5 (phases (calls (fst (training_cell toy_torch (loaded_kernel 0)))))
       = [KZeroGrad, KForward, KCriterion, KBackward, KStep]
   \<and> take 5 (phases (calls (fst (training_cell toy_torch (loaded_kernel 0)))))
       \<noteq> [KForward, KCriterion, KBackward, KStep, KZeroGrad]"
  using toy_training_succeeds toy_first_phases by simp







text \<open>
  C5. Two runs of the training cell need not print the same losses. The printed losses
  depend on the state of the random generator, which no statement of the cells fixes: on
  the small instance, two kernels that differ only in that state print different losses,
  through the random initialisation of the parameters alone (the loader not shuffling)
  and through the shuffling of the loader alone (the initialisation not random), the
  loader being the one that the first code cell makes, with \<^verbatim>\<open>shuffle=True\<close>.
\<close>

theorem printed_losses_depend_on_generator:
  "stdout (fst (training_cell toy_unshuffled (loaded_kernel 0)))
     \<noteq> stdout (fst (training_cell toy_unshuffled (loaded_kernel 1)))
   \<and> stdout (fst (training_cell toy_fixed_init (loaded_kernel 0)))
     \<noteq> stdout (fst (training_cell toy_fixed_init (loaded_kernel 1)))
   \<and> loaded_kernel 1 = (loaded_kernel 0)\<lparr>rng := 1\<rparr>
   \<and> v_trainloader (loaded_kernel 0) = Some (DataLoader 64 True)
   \<and> v_trainloader (loaded_kernel 1) = Some (DataLoader 64 True)"
  using toy_unshuffled_differs toy_fixed_init_differs loaded_kernel_calls(4,5) by simp





text \<open>
  C9. In every run of the training cell, started with grad mode on, each call of
  \<^verbatim>\<open>optimizer.step()\<close> comes after exactly one backward pass since the last
  \<^verbatim>\<open>optimizer.zero_grad()\<close>, and the gradients it reads in the parameters are exactly the
  gradients that this backward pass computed for the loss of its batch: the monitor accepts
  the log. This needs of the framework that a gradient added to a zeroed tensor is that
  gradient, and that autograd returns one gradient for each leaf.
\<close>

theorem step_reads_gradients_of_one_batch:
  assumes "gradient_laws L" and "grad_enabled s" and "training_cell L s = (s', r)"
  shows "\<exists>es st. calls s' = calls s @ es \<and> grad_monitor Stale es = Some st"
  using training_cell_monitored[OF assms] by blast

theorem step_reads_gradients_of_one_batch_witness:
  "gradient_laws toy_torch \<and> grad_enabled (loaded_kernel 0)
   \<and> count_steps (calls (fst (training_cell toy_torch (loaded_kernel 0)))) = 20
   \<and> (\<exists>es st. calls (fst (training_cell toy_torch (loaded_kernel 0))) = calls (loaded_kernel 0) @ es
         \<and> grad_monitor Stale es = Some st)"
proof -
  have g: "grad_enabled (loaded_kernel 0)" by (rule loaded_kernel_calls)
  from step_reads_gradients_of_one_batch[OF toy_gradient_laws g
      surjective_pairing[of "training_cell toy_torch (loaded_kernel 0)"]]
  show ?thesis using toy_gradient_laws g toy_steps by blast
qed

text \<open>
  C10. The prediction cell only reads the model: whatever its outcome, every parameter
  tensor and every gradient field is after the cell what it was before, grad mode is
  restored, and the calls of the cell are reading calls, among them the forward pass, made
  with grad mode off on the model bound to \<^verbatim>\<open>model\<close>.
\<close>

theorem prediction_only_reads:
  assumes "prediction_cell L s = (s', r)"
  shows "heap s' = heap s \<and> grad_enabled s' = grad_enabled s
    \<and> (\<exists>es. calls s' = calls s @ es
          \<and> list_all (reading_event (map_option module_id (v_model s))) es)"
  using prediction_cell_reads_only[OF assms] by (simp add: reads_only_def)

theorem prediction_only_reads_witness:
  "snd (prediction_cell toy_torch (fst (new_model toy_torch log_softmax_layers (loaded_kernel 0))))
     = None
   \<and> heap (fst (prediction_cell toy_torch
               (fst (new_model toy_torch log_softmax_layers (loaded_kernel 0)))))
       = heap (fst (new_model toy_torch log_softmax_layers (loaded_kernel 0)))
   \<and> grad_enabled (fst (prediction_cell toy_torch
               (fst (new_model toy_torch log_softmax_layers (loaded_kernel 0)))))
       = grad_enabled (fst (new_model toy_torch log_softmax_layers (loaded_kernel 0)))
   \<and> (\<exists>es. calls (fst (prediction_cell toy_torch
               (fst (new_model toy_torch log_softmax_layers (loaded_kernel 0)))))
            = calls (fst (new_model toy_torch log_softmax_layers (loaded_kernel 0))) @ es
          \<and> list_all (reading_event (map_option module_id
               (v_model (fst (new_model toy_torch log_softmax_layers (loaded_kernel 0)))))) es)"
  using prediction_only_reads[OF succeeded[OF toy_prediction_succeeds]] toy_prediction_succeeds
  by blast

end
